theory Spec2Isabelle
  imports Main
begin

unbundle bit_operations_syntax

section \<open>Constants\<close>

text \<open>
  The values of the C library that the source names (stdlib.h, unistd.h and, for the
  open flags, the Linux fcntl.h).
\<close>

definition EXIT_SUCCESS :: int where "EXIT_SUCCESS = 0"
definition EXIT_FAILURE :: int where "EXIT_FAILURE = 1"

definition STDIN_FILENO :: int where "STDIN_FILENO = 0"
definition STDOUT_FILENO :: int where "STDOUT_FILENO = 1"
definition STDERR_FILENO :: int where "STDERR_FILENO = 2"

definition O_RDONLY :: int where "O_RDONLY = 0"
definition O_WRONLY :: int where "O_WRONLY = 1"
definition O_CREAT :: int where "O_CREAT = 64"
definition O_TRUNC :: int where "O_TRUNC = 512"
definition O_APPEND :: int where "O_APPEND = 1024"

text \<open>
  Modelled from the spec: the macro \<open>SHELL_EXIT\<close> of cmd.h, which is not under src/.
  The spec calls it a distinguished "terminate the shell" sentinel, distinct from the
  ordinary exit statuses (0 for success, non-zero for failure); the model takes a value
  outside the range 0..255 of the exit statuses.
\<close>

definition SHELL_EXIT :: int where "SHELL_EXIT = - 100"

datatype errno =
  ENOENT | EACCES | EBADF | EMFILE | ECHILD | EFAULT | EINVAL | ERANGE | EISDIR | EAGAIN

fun strerror :: "errno \<Rightarrow> string" where
  "strerror ENOENT = ''No such file or directory''"
| "strerror EACCES = ''Permission denied''"
| "strerror EBADF = ''Bad file descriptor''"
| "strerror EMFILE = ''Too many open files''"
| "strerror ECHILD = ''No child processes''"
| "strerror EFAULT = ''Bad address''"
| "strerror EINVAL = ''Invalid argument''"
| "strerror ERANGE = ''Numerical result out of range''"
| "strerror EISDIR = ''Is a directory''"
| "strerror EAGAIN = ''Resource temporarily unavailable''"

section \<open>The command tree (parser.h, not under src/)\<close>

text \<open>
  Modelled from the spec: the types \<open>word_t\<close>, \<open>simple_command_t\<close> and \<open>command_t\<close>
  and the helpers \<open>get_word\<close> and \<open>get_argv\<close> are declared outside src/. The spec
  describes a word as an already expanded string "optionally produced by concatenating
  parts", and an assignment \<open>VAR=value\<close> as adjacent parts of the verb. The source reads
  the fields \<open>string\<close> and \<open>next_part\<close> of a word, so a word keeps both; the list
  \<open>next_word\<close> of the parameters is an Isabelle list.
\<close>

datatype word = Word (w_string: string) (next_part: "word option")

text \<open>
  Modelled from the spec: \<open>get_word\<close> of utils.c, which is not under src/. It resolves
  a word to one string, the concatenation of its parts (the parts are "already expanded").
  For a \<open>NULL\<close> word the callers get \<open>NULL\<close>, here \<open>None\<close> through \<open>map_option\<close>.
\<close>

fun get_word :: "word \<Rightarrow> string" where
  "get_word (Word s np) = s @ (case np of None \<Rightarrow> [] | Some w \<Rightarrow> get_word w)"

record simple_command =
  verb :: word
  params :: "word list"
  scmd_in :: "word option"
  scmd_out :: "word option"
  scmd_err :: "word option"
  io_flags :: int

text \<open>
  Modelled from the spec: \<open>get_argv\<close> of utils.c, which is not under src/. It gives "the
  argument vector (verb + args)", each word resolved.
\<close>

definition get_argv :: "simple_command \<Rightarrow> string list" where
  "get_argv s = get_word (verb s) # map get_word (params s)"

datatype operator =
  OP_SEQUENTIAL | OP_PARALLEL | OP_CONDITIONAL_ZERO | OP_CONDITIONAL_NZERO | OP_PIPE

text \<open>
  A node with \<open>op = OP_NONE\<close> carries its simple command, one with \<open>OP_DUMMY\<close> nothing,
  and an operator node its two children, each of which may be \<open>NULL\<close>.
\<close>

datatype command =
  Scmd simple_command
| Dummy
| Op operator "command option" "command option"

text \<open>
  The back links \<open>up\<close> of the tree are read in one place only (cmd.c, line 184), to
  ask whether a leaf is \<open>cmd2\<close> of a node whose operator is \<open>OP_PIPE\<close>. The model passes
  that information down the recursion instead: the place of a node below its parent.
\<close>

datatype position = Root | Cmd1_of operator | Cmd2_of operator

section \<open>The process and the kernel\<close>

text \<open>
  An open file description. Each \<open>open\<close> and each \<open>pipe\<close> makes a new one, told apart
  by a serial number, so that two descriptors are equal in the model only when they are
  duplicates of one another.
\<close>

datatype ofile =
  Inherited nat
| Opened nat string int
| Pipe_read nat
| Pipe_write nat

datatype ending = Exited int | Signaled int

datatype event =
  Ev_open string int "int option" "errno option"
| Ev_write ofile string
| Ev_chdir string "errno option"
| Ev_setenv string string
| Ev_exec "string list" "errno option"
| Ev_fork int "event list" "ending option"
| Ev_wait int "(int \<times> int) option"

text \<open>
  What one process sees. \<open>children\<close> are the children not yet waited for, each with
  its wait status once it has terminated (\<open>None\<close>: it never terminates). \<open>log\<close> is the
  history of the calls whose answer the kernel decides; a child's calls appear inside the
  \<open>Ev_fork\<close> event of its parent.
\<close>

record state =
  fds :: "int \<Rightarrow> ofile option"
  fd_limit :: int
  serial :: nat
  cwd :: string
  env :: "string \<Rightarrow> string option"
  errno :: "errno option"
  pgid :: int
  children :: "(int \<times> int option) list"
  log :: "event list"

text \<open>
  The answers of the kernel that the program cannot compute are parameters; each may
  depend on the whole history. \<open>k_open\<close>: the error of an \<open>open\<close> of a path with the given
  flags, if any. \<open>k_chdir\<close>: the error of \<open>chdir\<close>, or the new working directory.
  \<open>k_fork\<close>: \<open>None\<close> when \<open>fork\<close> fails, \<open>Some n\<close> when the child gets the process id
  \<open>n + 1\<close>. \<open>k_exec\<close>: what \<open>execvp\<close> of an argument vector does. \<open>k_pick\<close>: which of
  several terminated children a wait for any child returns.
\<close>

datatype exec_result = Exec_error errno | Exec_runs "ending option"

record kernel =
  k_open :: "event list \<Rightarrow> string \<Rightarrow> int \<Rightarrow> errno option"
  k_chdir :: "event list \<Rightarrow> string \<Rightarrow> string \<Rightarrow> errno + string"
  k_fork :: "event list \<Rightarrow> nat option"
  k_exec :: "event list \<Rightarrow> string list \<Rightarrow> exec_result"
  k_pick :: "event list \<Rightarrow> int list \<Rightarrow> int"

text \<open>
  How a piece of code ends in the process that runs it: it returns a value, the macro
  \<open>DIE\<close> ends the process, a wait blocks for ever, or the C standard leaves the
  behaviour undefined (a read of an uninitialised variable, a \<open>NULL\<close> dereference).
\<close>

datatype 'a outcome =
  Return 'a state
| Die string state
| Hang state
| Undef state

fun abnormal :: "'a outcome \<Rightarrow> 'b outcome" where
  "abnormal (Die m st) = Die m st"
| "abnormal (Hang st) = Hang st"
| "abnormal (Undef st) = Undef st"
| "abnormal (Return x st) = Undef st"

definition bind :: "'a outcome \<Rightarrow> ('a \<Rightarrow> state \<Rightarrow> 'b outcome) \<Rightarrow> 'b outcome" where
  "bind m f = (case m of Return x st \<Rightarrow> f x st | _ \<Rightarrow> abnormal m)"

subsection \<open>Descriptors\<close>

text \<open>
  The descriptor table maps the descriptors in use, which are not negative, to their
  open file descriptions; \<open>fd_limit\<close> is the limit on the number a descriptor may have.
  A new descriptor is the lowest one not in use.
\<close>

definition free_fds :: "state \<Rightarrow> int list" where
  "free_fds st = filter (\<lambda>i. fds st i = None) [0..fd_limit st - 1]"

definition lowest_free :: "state \<Rightarrow> int option" where
  "lowest_free st = (case free_fds st of [] \<Rightarrow> None | n # _ \<Rightarrow> Some n)"

definition sys_dup :: "int \<Rightarrow> state \<Rightarrow> int \<times> state" where
  "sys_dup fd st =
     (if fd < 0 \<or> fds st fd = None then (- 1, st\<lparr>errno := Some EBADF\<rparr>)
      else
        (case lowest_free st of
           None \<Rightarrow> (- 1, st\<lparr>errno := Some EMFILE\<rparr>)
         | Some n \<Rightarrow> (n, st\<lparr>fds := (fds st)(n := fds st fd)\<rparr>)))"

definition sys_dup2 :: "int \<Rightarrow> int \<Rightarrow> state \<Rightarrow> int \<times> state" where
  "sys_dup2 oldfd newfd st =
     (if oldfd < 0 \<or> fds st oldfd = None \<or> newfd < 0 \<or> fd_limit st \<le> newfd
      then (- 1, st\<lparr>errno := Some EBADF\<rparr>)
      else (newfd, st\<lparr>fds := (fds st)(newfd := fds st oldfd)\<rparr>))"

definition sys_close :: "int \<Rightarrow> state \<Rightarrow> int \<times> state" where
  "sys_close fd st =
     (if fd < 0 \<or> fds st fd = None then (- 1, st\<lparr>errno := Some EBADF\<rparr>)
      else (0, st\<lparr>fds := (fds st)(fd := None)\<rparr>))"

text \<open>\<open>open(path, flags)\<close> and \<open>open(path, flags, mode)\<close>; a \<open>NULL\<close> path is \<open>None\<close>.\<close>

definition sys_open :: "kernel \<Rightarrow> string option \<Rightarrow> int \<Rightarrow> int option \<Rightarrow> state \<Rightarrow> int \<times> state" where
  "sys_open k path flags mode st =
     (case path of
        None \<Rightarrow> (- 1, st\<lparr>errno := Some EFAULT\<rparr>)
      | Some p \<Rightarrow>
          (case lowest_free st of
             None \<Rightarrow> (- 1, st\<lparr>errno := Some EMFILE,
                               log := log st @ [Ev_open p flags mode (Some EMFILE)]\<rparr>)
           | Some n \<Rightarrow>
               (case k_open k (log st) p flags of
                  Some e \<Rightarrow> (- 1, st\<lparr>errno := Some e,
                                    log := log st @ [Ev_open p flags mode (Some e)]\<rparr>)
                | None \<Rightarrow> (n, st\<lparr>fds := (fds st)(n \<mapsto> Opened (serial st) p flags),
                                 serial := serial st + 1,
                                 log := log st @ [Ev_open p flags mode None]\<rparr>))))"

text \<open>\<open>pipe(pipe_fd)\<close>: the result code, then \<open>pipe_fd[READ]\<close> and \<open>pipe_fd[WRITE]\<close>.\<close>

definition sys_pipe :: "state \<Rightarrow> (int \<times> int \<times> int) \<times> state" where
  "sys_pipe st =
     (case lowest_free st of
        None \<Rightarrow> ((- 1, 0, 0), st\<lparr>errno := Some EMFILE\<rparr>)
      | Some r \<Rightarrow>
          (let st1 = st\<lparr>fds := (fds st)(r \<mapsto> Pipe_read (serial st))\<rparr> in
           case lowest_free st1 of
             None \<Rightarrow> ((- 1, 0, 0), st\<lparr>errno := Some EMFILE\<rparr>)
           | Some w \<Rightarrow>
               ((0, r, w), st1\<lparr>fds := (fds st1)(w \<mapsto> Pipe_write (serial st)),
                               serial := serial st + 1\<rparr>)))"

text \<open>\<open>fprintf\<close> to a standard stream followed by \<open>fflush\<close>.\<close>

definition sys_write :: "int \<Rightarrow> string \<Rightarrow> state \<Rightarrow> state" where
  "sys_write fd text st =
     (case fds st fd of
        None \<Rightarrow> st\<lparr>errno := Some EBADF\<rparr>
      | Some f \<Rightarrow> st\<lparr>log := log st @ [Ev_write f text]\<rparr>)"

subsection \<open>Working directory and environment\<close>

definition sys_chdir :: "kernel \<Rightarrow> string \<Rightarrow> state \<Rightarrow> int \<times> state" where
  "sys_chdir k path st =
     (case k_chdir k (log st) (cwd st) path of
        Inl e \<Rightarrow> (- 1, st\<lparr>errno := Some e, log := log st @ [Ev_chdir path (Some e)]\<rparr>)
      | Inr d \<Rightarrow> (0, st\<lparr>cwd := d, log := log st @ [Ev_chdir path None]\<rparr>))"

text \<open>\<open>getcwd(NULL, n)\<close>: a fresh buffer of \<open>n\<close> bytes, or \<open>NULL\<close> when the path and
  its terminator do not fit.\<close>

definition sys_getcwd :: "nat \<Rightarrow> state \<Rightarrow> string option \<times> state" where
  "sys_getcwd n st =
     (if length (cwd st) + 1 \<le> n then (Some (cwd st), st)
      else (None, st\<lparr>errno := Some ERANGE\<rparr>))"

text \<open>\<open>setenv(name, value, 1)\<close>.\<close>

definition sys_setenv :: "string \<Rightarrow> string \<Rightarrow> state \<Rightarrow> int \<times> state" where
  "sys_setenv name val st =
     (if name = [] \<or> CHR ''='' \<in> set name then (- 1, st\<lparr>errno := Some EINVAL\<rparr>)
      else (0, st\<lparr>env := (env st)(name \<mapsto> val), log := log st @ [Ev_setenv name val]\<rparr>))"

subsection \<open>Processes\<close>

text \<open>
  The wait status of a terminated process and the macro \<open>WEXITSTATUS\<close>, which is
  \<open>(status & 0xff00) >> 8\<close>.
\<close>

fun wstatus_of :: "ending \<Rightarrow> int" where
  "wstatus_of (Exited code) = (code mod 256) * 256"
| "wstatus_of (Signaled sig) = sig mod 128"

definition WEXITSTATUS :: "int \<Rightarrow> int" where
  "WEXITSTATUS status = (status div 256) mod 256"

definition sys_fork :: "kernel \<Rightarrow> state \<Rightarrow> int option" where
  "sys_fork k st = map_option (\<lambda>n. int n + 1) (k_fork k (log st))"

text \<open>
  Processes are run one after the other: a child runs from its \<open>fork\<close> to its end
  before its parent goes on. The child starts with a copy of the parent's descriptors,
  directory and environment and with no children of its own.
\<close>

definition child_state :: "state \<Rightarrow> state" where
  "child_state st = st\<lparr>children := []\<rparr>"

text \<open>
  Modelled from the spec: the macro \<open>DIE\<close> of utils.h, which is not under src/. The spec
  says that the process "aborts with diagnostic"; the model takes the process to end with
  the status \<open>EXIT_FAILURE\<close>.
\<close>

definition DIE_ending :: ending where
  "DIE_ending = Exited EXIT_FAILURE"

text \<open>
  The end of a child process whose code yields the termination it chose (the argument
  of \<open>exit\<close>, or the end of the program it executed). \<open>None\<close>: undefined behaviour.
\<close>

fun child_fate :: "ending option outcome \<Rightarrow> (ending option \<times> state) option" where
  "child_fate (Return t st) = Some (t, st)"
| "child_fate (Die m st) = Some (Some DIE_ending, st)"
| "child_fate (Hang st) = Some (None, st)"
| "child_fate (Undef st) = None"

text \<open>\<open>exit(ret)\<close> after a computation that returned \<open>ret\<close>.\<close>

fun exit_with :: "int outcome \<Rightarrow> ending option outcome" where
  "exit_with (Return ret st) = Return (Some (Exited ret)) st"
| "exit_with (Die m st) = Die m st"
| "exit_with (Hang st) = Hang st"
| "exit_with (Undef st) = Undef st"

text \<open>The parent after the \<open>fork\<close> of a child with process id \<open>pid\<close> that ended as given.\<close>

definition adopt :: "state \<Rightarrow> int \<Rightarrow> ending option \<times> state \<Rightarrow> state" where
  "adopt st pid fate =
     st\<lparr>children := children st @ [(pid, map_option wstatus_of (fst fate))],
        log := log st @ [Ev_fork pid (drop (length (log st)) (log (snd fate))) (fst fate)]\<rparr>"

text \<open>
  Which children \<open>waitpid(pid, ...)\<close> asks for: the child \<open>pid\<close> when \<open>pid > 0\<close>, any
  child for \<open>- 1\<close>, any child of the caller's process group for \<open>0\<close>, any child of the
  process group \<open>- pid\<close> otherwise. No call of the source changes a process group, so
  the children are in the group of the shell.
\<close>

definition waits_for :: "state \<Rightarrow> int \<Rightarrow> int \<Rightarrow> bool" where
  "waits_for st pid p =
     (if 0 < pid then p = pid
      else if pid = - 1 \<or> pid = 0 then True
      else - pid = pgid st)"

text \<open>
  \<open>waitpid(pid, &wstatus, 0)\<close>: the result and the status written, if any. With no
  such child the call fails and writes nothing; with none of them terminated it blocks.
\<close>

definition sys_waitpid :: "kernel \<Rightarrow> int \<Rightarrow> state \<Rightarrow> (int \<times> int option) outcome" where
  "sys_waitpid k pid st =
     (let cands = filter (\<lambda>c. waits_for st pid (fst c)) (children st) in
      if cands = [] then
        Return (- 1, None) (st\<lparr>errno := Some ECHILD, log := log st @ [Ev_wait pid None]\<rparr>)
      else
        (let dead = List.map_filter (\<lambda>c. map_option (Pair (fst c)) (snd c)) cands in
         if dead = [] then Hang st
         else
           (let choice = k_pick k (log st) (map fst dead);
                p = (if choice \<in> set (map fst dead) then choice else fst (hd dead))
            in case map_of dead p of
                 None \<Rightarrow> Undef st
               | Some w \<Rightarrow>
                   Return (p, Some w)
                     (st\<lparr>children := filter (\<lambda>c. fst c \<noteq> p) (children st),
                         log := log st @ [Ev_wait pid (Some (p, w))]\<rparr>))))"

text \<open>\<open>wait(&wstatus)\<close> is \<open>waitpid(-1, &wstatus, 0)\<close>.\<close>

definition sys_wait :: "kernel \<Rightarrow> state \<Rightarrow> (int \<times> int option) outcome" where
  "sys_wait k st = sys_waitpid k (- 1) st"

section \<open>The redirection helper (cmd.c, lines 19-55)\<close>

text \<open>
  The \<open>switch\<close> has no default: for another flag \<open>new_fd\<close> is read uninitialised.
  The second \<open>open\<close> follows any failure of the first; its mode 0644 is 420 in decimal.
\<close>

definition redirect :: "kernel \<Rightarrow> int \<Rightarrow> string option \<Rightarrow> int \<Rightarrow> state \<Rightarrow> unit outcome" where
  "redirect k old_fd redirect_file flag st =
     (if flag = O_WRONLY \<or> flag = O_APPEND \<or> flag = O_RDONLY then
        (let (new_fd, st1) =
               (if flag = O_WRONLY then sys_open k redirect_file (O_TRUNC OR O_WRONLY) None st
                else if flag = O_APPEND then sys_open k redirect_file (O_APPEND OR O_WRONLY) None st
                else sys_open k redirect_file flag None st)
         in bind
              (if new_fd < 0 then
                 (let (new_fd, st2) =
                        sys_open k redirect_file (O_CREAT OR O_TRUNC OR O_WRONLY) (Some 420) st1
                  in if new_fd < 0 then Die ''open'' st2 else Return new_fd st2)
               else Return new_fd st1)
              (\<lambda>new_fd st3.
                 let (rc, st4) = sys_dup2 new_fd old_fd st3 in
                 if rc < 0 then Die ''dup2'' st4
                 else (let (rc, st5) = sys_close new_fd st4 in
                       if rc < 0 then Die ''close'' st5 else Return () st5)))
      else Undef st)"

definition restore_fd :: "int \<Rightarrow> int \<Rightarrow> state \<Rightarrow> unit outcome" where
  "restore_fd fd fd_copy st =
     (let (rc, st1) = sys_dup2 fd_copy fd st in
      if rc < 0 then Die ''dup2'' st1
      else (let (rc, st2) = sys_close fd_copy st1 in
            if rc < 0 then Die ''close'' st2 else Return () st2))"

section \<open>Environment assignment: \<open>split_env_command\<close> (cmd.c, lines 57-68)\<close>

text \<open>
  The C function receives a pointer to a NUL-terminated buffer. The buffer is modelled
  as the list of its bytes, terminator included, and a pointer into it as an index.
  A read at an index outside the buffer is undefined in C; the model returns \<open>None\<close>
  there, so that a result \<open>Some\<close> means that every access stayed inside the buffer.
\<close>

definition NUL :: char where
  "NUL = CHR 0x00"

text \<open>\<^verbatim>\<open>while (*p != '=') p++;\<close> started at index \<open>p\<close>, the list being the bytes from
  \<open>p\<close> to the end of the buffer. The loop does not stop at the terminator.\<close>

fun scan_eq :: "char list \<Rightarrow> nat \<Rightarrow> nat option" where
  "scan_eq [] p = None"
| "scan_eq (c # cs) p = (if c \<noteq> CHR ''='' then scan_eq cs (p + 1) else Some p)"

text \<open>The C string that starts at index \<open>i\<close> of a buffer: the bytes up to the first
  NUL; \<open>None\<close> when there is no NUL before the end of the buffer.\<close>

definition c_string :: "char list \<Rightarrow> nat \<Rightarrow> string option" where
  "c_string mem i =
     (if NUL \<in> set (drop i mem) then Some (takeWhile (\<lambda>c. c \<noteq> NUL) (drop i mem)) else None)"

text \<open>The result is the pair \<open>(*var, *value)\<close>, read as C strings from the buffer after
  the write \<^verbatim>\<open>*p = '\0'\<close>.\<close>

definition split_env_command :: "char list \<Rightarrow> (string \<times> string) option" where
  "split_env_command command =
     (case scan_eq command 0 of
        None \<Rightarrow> None
      | Some p \<Rightarrow>
          (let mem = command[p := NUL] in
           case (c_string mem 0, c_string mem (p + 1)) of
             (Some var, Some val) \<Rightarrow> Some (var, val)
           | _ \<Rightarrow> None))"

text \<open>The buffer that holds the C string \<open>s\<close>.\<close>

definition c_buffer :: "string \<Rightarrow> char list" where
  "c_buffer s = s @ [NUL]"

section \<open>Simple commands: \<open>parse_simple\<close> (cmd.c, lines 70-207)\<close>

definition newline :: string where
  "newline = [CHR 0x0A]"

text \<open>\<open>strerror(errno)\<close>.\<close>

definition strerror_errno :: "state \<Rightarrow> string" where
  "strerror_errno st = (case errno st of None \<Rightarrow> ''Success'' | Some e \<Rightarrow> strerror e)"

text \<open>\<open>shell_cd\<close> returns \<open>bool\<close>: the result of \<open>chdir\<close>, 0 or -1, becomes false or true.\<close>

definition shell_cd :: "kernel \<Rightarrow> word \<Rightarrow> state \<Rightarrow> bool \<times> state" where
  "shell_cd k dir st = (let (rc, st1) = sys_chdir k (w_string dir) st in (rc \<noteq> 0, st1))"

text \<open>Lines 102-130, the \<open>switch\<close> on \<open>io_flags\<close>. It has no default.\<close>

definition apply_io ::
  "kernel \<Rightarrow> simple_command \<Rightarrow> string option \<Rightarrow> string option \<Rightarrow> state \<Rightarrow> unit outcome" where
  "apply_io k s file_out file_err st =
     (if io_flags s = 3 then
        bind (redirect k STDOUT_FILENO file_out O_APPEND st)
          (\<lambda>_. redirect k STDERR_FILENO file_err O_APPEND)
      else if io_flags s = 2 then
        bind (if scmd_out s \<noteq> None then redirect k STDOUT_FILENO file_out O_WRONLY st
              else Return () st)
          (\<lambda>_. redirect k STDERR_FILENO file_err O_APPEND)
      else if io_flags s = 1 then
        bind (if scmd_err s \<noteq> None then redirect k STDERR_FILENO file_err O_WRONLY st
              else Return () st)
          (\<lambda>_. redirect k STDOUT_FILENO file_out O_APPEND)
      else if io_flags s = 0 then
        (if scmd_out s \<noteq> None \<or> scmd_err s \<noteq> None then
           (if scmd_out s \<noteq> None \<and> scmd_err s \<noteq> None \<and> file_out = file_err then
              bind (redirect k STDOUT_FILENO file_out O_WRONLY st)
                (\<lambda>_ st1. bind (redirect k STDOUT_FILENO file_out O_APPEND st1)
                   (\<lambda>_. redirect k STDERR_FILENO file_err O_APPEND))
            else
              bind (if scmd_out s \<noteq> None then redirect k STDOUT_FILENO file_out O_WRONLY st
                    else Return () st)
                (\<lambda>_ st1. if scmd_err s \<noteq> None then redirect k STDERR_FILENO file_err O_WRONLY st1
                          else Return () st1))
         else Return () st)
      else Return () st)"

text \<open>Lines 132-144. The test \<open>ret < 0\<close> is applied to the \<open>bool\<close> of \<open>shell_cd\<close>
  converted to \<open>int\<close>.\<close>

definition builtin_cd :: "kernel \<Rightarrow> simple_command \<Rightarrow> state \<Rightarrow> int outcome" where
  "builtin_cd k s st =
     (case params s of
        [] \<Rightarrow> Return EXIT_SUCCESS st
      | dir # _ \<Rightarrow>
          (let (b, st1) = shell_cd k dir st;
               ret = (if b then 1 else 0 :: int)
           in if ret < 0
              then Return EXIT_FAILURE (sys_write STDERR_FILENO (strerror_errno st1 @ newline) st1)
              else Return ret st1))"

text \<open>Lines 146-154. \<open>fprintf\<close> of a \<open>NULL\<close> string is undefined.\<close>

definition builtin_pwd :: "state \<Rightarrow> int outcome" where
  "builtin_pwd st =
     (let (curr_dir, st1) = sys_getcwd 200 st in
      case curr_dir of
        None \<Rightarrow> Undef st1
      | Some d \<Rightarrow> Return EXIT_SUCCESS (sys_write STDOUT_FILENO (d @ newline) st1))"

text \<open>Lines 156-167.\<close>

definition is_assignment :: "simple_command \<Rightarrow> bool" where
  "is_assignment s =
     (case next_part (verb s) of None \<Rightarrow> False | Some w \<Rightarrow> w_string w = ''='')"

definition env_assignment :: "string \<Rightarrow> state \<Rightarrow> int outcome" where
  "env_assignment arg0 st =
     (case split_env_command (c_buffer arg0) of
        None \<Rightarrow> Undef st
      | Some (var, val) \<Rightarrow>
          (let (ret, st1) = sys_setenv var val st in
           if ret < 0
           then Return EXIT_FAILURE (sys_write STDERR_FILENO (strerror_errno st1 @ newline) st1)
           else Return ret st1))"

text \<open>Lines 173-182, the child of the \<open>fork\<close>: its code yields how the process ends.\<close>

definition scmd_child ::
  "kernel \<Rightarrow> simple_command \<Rightarrow> string option \<Rightarrow> string list \<Rightarrow> state \<Rightarrow> ending option outcome" where
  "scmd_child k s file_in args st =
     bind (if scmd_in s \<noteq> None then redirect k STDIN_FILENO file_in O_RDONLY st
           else Return () st)
       (\<lambda>_ st1.
          case k_exec k (log st1) args of
            Exec_runs t \<Rightarrow> Return t (st1\<lparr>log := log st1 @ [Ev_exec args None]\<rparr>)
          | Exec_error e \<Rightarrow>
              (let st2 = st1\<lparr>errno := Some e, log := log st1 @ [Ev_exec args (Some e)]\<rparr>;
                   st3 = (if e = ENOENT
                          then sys_write STDERR_FILENO
                                 (''Execution failed for '' @ [CHR 0x27] @ args ! 0 @ [CHR 0x27] @ newline) st2
                          else st2)
               in Return (Some (Exited EXIT_FAILURE)) st3))"

text \<open>Lines 169-191. The leaf is \<open>cmd2\<close> of a pipe node exactly when its position says so.\<close>

definition run_external ::
  "kernel \<Rightarrow> simple_command \<Rightarrow> position \<Rightarrow> string option \<Rightarrow> string list \<Rightarrow> state \<Rightarrow> int outcome" where
  "run_external k s pos file_in args st =
     (case sys_fork k st of
        None \<Rightarrow> Die ''fork'' st
      | Some pid \<Rightarrow>
          (case child_fate (scmd_child k s file_in args (child_state st)) of
             None \<Rightarrow> Undef st
           | Some fate \<Rightarrow>
               (let st1 = adopt st pid fate in
                if pos = Cmd2_of OP_PIPE then Return pid st1
                else bind (sys_wait k st1)
                       (\<lambda>(rc, wstatus) st2.
                          case wstatus of
                            None \<Rightarrow> Undef st2
                          | Some w \<Rightarrow> Return (WEXITSTATUS w) st2))))"

text \<open>Lines 97-191, from the test for \<open>exit\<close> to the label \<open>exit_func\<close>: the value of \<open>ret\<close>
  there.\<close>

definition scmd_body ::
  "kernel \<Rightarrow> simple_command \<Rightarrow> position \<Rightarrow> string option \<Rightarrow> string option \<Rightarrow> string option \<Rightarrow>
   string list \<Rightarrow> state \<Rightarrow> int outcome" where
  "scmd_body k s pos file_in file_out file_err args st =
     (if args ! 0 = ''exit'' \<or> args ! 0 = ''quit'' then Return SHELL_EXIT st
      else
        bind (apply_io k s file_out file_err st)
          (\<lambda>_ st1.
             if args ! 0 = ''cd'' then builtin_cd k s st1
             else if args ! 0 = ''pwd'' then builtin_pwd st1
             else if is_assignment s then env_assignment (args ! 0) st1
             else run_external k s pos file_in args st1))"

text \<open>The three calls of \<open>dup\<close> (lines 88-90 and 282-284); their results are not
  checked.\<close>

definition save_streams :: "state \<Rightarrow> (int \<times> int \<times> int) \<times> state" where
  "save_streams st =
     (let (in_copy, st1) = sys_dup STDIN_FILENO st;
          (out_copy, st2) = sys_dup STDOUT_FILENO st1;
          (err_copy, st3) = sys_dup STDERR_FILENO st2
      in ((in_copy, out_copy, err_copy), st3))"

text \<open>The three calls of \<open>restore_fd\<close> (lines 202-204, 303-305 and 320-322).\<close>

definition restore_all :: "int \<Rightarrow> int \<Rightarrow> int \<Rightarrow> state \<Rightarrow> unit outcome" where
  "restore_all in_copy out_copy err_copy st =
     bind (restore_fd STDIN_FILENO in_copy st)
       (\<lambda>_ st1. bind (restore_fd STDOUT_FILENO out_copy st1)
          (\<lambda>_. restore_fd STDERR_FILENO err_copy))"

text \<open>The function. The calls of \<open>free\<close> at \<open>exit_func\<close> have no counterpart in the
  model.\<close>

definition parse_simple :: "kernel \<Rightarrow> simple_command \<Rightarrow> position \<Rightarrow> state \<Rightarrow> int outcome" where
  "parse_simple k s pos st =
     (let ((stdin_copy, stdout_copy, stderr_copy), st3) = save_streams st;
          file_in = map_option get_word (scmd_in s);
          file_out = map_option get_word (scmd_out s);
          file_err = map_option get_word (scmd_err s);
          args = get_argv s
      in bind (scmd_body k s pos file_in file_out file_err args st3)
           (\<lambda>ret st4. bind (restore_all stdin_copy stdout_copy stderr_copy st4)
              (\<lambda>_. Return ret)))"

section \<open>Command trees: \<open>parse_command\<close> (cmd.c, lines 209-334)\<close>

text \<open>Lines 294-299, in the child of a pipe node.\<close>

definition pipe_child_setup :: "int \<Rightarrow> int \<Rightarrow> state \<Rightarrow> unit outcome" where
  "pipe_child_setup rd wr st =
     (let (rc, st1) = sys_dup2 wr STDOUT_FILENO st in
      if rc < 0 then Die ''dup2'' st1
      else (let (rc, st2) = sys_close rd st1 in
            if rc < 0 then Die ''close'' st2
            else (let (rc, st3) = sys_close wr st2 in
                  if rc < 0 then Die ''close'' st3 else Return () st3)))"

text \<open>Lines 309-314, in the parent.\<close>

definition pipe_parent_setup :: "int \<Rightarrow> int \<Rightarrow> state \<Rightarrow> unit outcome" where
  "pipe_parent_setup rd wr st =
     (let (rc, st1) = sys_dup2 rd STDIN_FILENO st in
      if rc < 0 then Die ''dup2'' st1
      else (let (rc, st2) = sys_close rd st1 in
            if rc < 0 then Die ''close'' st2
            else (let (rc, st3) = sys_close wr st2 in
                  if rc < 0 then Die ''close'' st3 else Return () st3)))"

text \<open>Lines 317-324. \<open>second_wstatus\<close> is written by the second \<open>waitpid\<close> only when
  that call finds a child.\<close>

definition pipe_finish ::
  "kernel \<Rightarrow> int \<Rightarrow> int \<Rightarrow> int \<Rightarrow> int \<Rightarrow> int \<Rightarrow> state \<Rightarrow> int outcome" where
  "pipe_finish k pid_first pid_second fdin_copy fdout_copy fderr_copy st =
     bind (sys_waitpid k pid_first st)
       (\<lambda>(rc1, first_wstatus) st1.
          bind (sys_waitpid k pid_second st1)
            (\<lambda>(rc2, second_wstatus) st2.
               bind (restore_all fdin_copy fdout_copy fderr_copy st2)
                 (\<lambda>_ st3.
                    case second_wstatus of
                      None \<Rightarrow> Undef st3
                    | Some w \<Rightarrow> Return (WEXITSTATUS w) st3)))"

text \<open>Lines 303-306: the child of a pipe node after its recursion returned \<open>ret\<close>.\<close>

definition pipe_child_exit :: "int \<Rightarrow> int \<Rightarrow> int \<Rightarrow> int \<Rightarrow> state \<Rightarrow> ending option outcome" where
  "pipe_child_exit fdin_copy fdout_copy fderr_copy ret st =
     bind (restore_all fdin_copy fdout_copy fderr_copy st)
       (\<lambda>_. Return (Some (Exited ret)))"

text \<open>
  The parameters \<open>level\<close> and \<open>father\<close> of the C function are never read and are left
  out. A call on a \<open>NULL\<close> node dereferences it; in the two conditional cases a \<open>NULL\<close>
  \<open>cmd1\<close> leaves \<open>ret\<close> uninitialised.
\<close>

fun parse_command :: "kernel \<Rightarrow> command \<Rightarrow> position \<Rightarrow> state \<Rightarrow> int outcome" where
  "parse_command k (Op OP_SEQUENTIAL c1 c2) pos st =
     (case c1 of
        None \<Rightarrow>
          (case c2 of
             None \<Rightarrow> Undef st
           | Some b \<Rightarrow> parse_command k b (Cmd2_of OP_SEQUENTIAL) st)
      | Some a \<Rightarrow>
          (case parse_command k a (Cmd1_of OP_SEQUENTIAL) st of
             Return ret st1 \<Rightarrow>
               if ret = SHELL_EXIT then Return SHELL_EXIT st1
               else (case c2 of
                       None \<Rightarrow> Undef st1
                     | Some b \<Rightarrow> parse_command k b (Cmd2_of OP_SEQUENTIAL) st1)
           | Die m st1 \<Rightarrow> Die m st1
           | Hang st1 \<Rightarrow> Hang st1
           | Undef st1 \<Rightarrow> Undef st1))"
| "parse_command k (Op OP_PARALLEL c1 c2) pos st =
     (case sys_fork k st of
        None \<Rightarrow> Die ''fork'' st
      | Some pid_first \<Rightarrow>
          (case child_fate
                  (case c1 of
                     None \<Rightarrow> Undef (child_state st)
                   | Some a \<Rightarrow> exit_with (parse_command k a (Cmd1_of OP_PARALLEL) (child_state st))) of
             None \<Rightarrow> Undef st
           | Some fate1 \<Rightarrow>
               (let st1 = adopt st pid_first fate1 in
                case sys_fork k st1 of
                  None \<Rightarrow> Die ''fork'' st1
                | Some pid_second \<Rightarrow>
                    (case child_fate
                            (case c2 of
                               None \<Rightarrow> Undef (child_state st1)
                             | Some b \<Rightarrow>
                                 exit_with (parse_command k b (Cmd2_of OP_PARALLEL) (child_state st1))) of
                       None \<Rightarrow> Undef st1
                     | Some fate2 \<Rightarrow>
                         (let st2 = adopt st1 pid_second fate2 in
                          bind (sys_waitpid k pid_first st2)
                            (\<lambda>_ st3. bind (sys_waitpid k pid_second st3)
                               (\<lambda>_ st4. Return EXIT_SUCCESS st4)))))))"
| "parse_command k (Op OP_CONDITIONAL_NZERO c1 c2) pos st =
     (case c1 of
        None \<Rightarrow> Undef st
      | Some a \<Rightarrow>
          (case parse_command k a (Cmd1_of OP_CONDITIONAL_NZERO) st of
             Return ret st1 \<Rightarrow>
               if ret = EXIT_FAILURE then
                 (case c2 of
                    None \<Rightarrow> Undef st1
                  | Some b \<Rightarrow> parse_command k b (Cmd2_of OP_CONDITIONAL_NZERO) st1)
               else Return EXIT_SUCCESS st1
           | Die m st1 \<Rightarrow> Die m st1
           | Hang st1 \<Rightarrow> Hang st1
           | Undef st1 \<Rightarrow> Undef st1))"
| "parse_command k (Op OP_CONDITIONAL_ZERO c1 c2) pos st =
     (case c1 of
        None \<Rightarrow> Undef st
      | Some a \<Rightarrow>
          (case parse_command k a (Cmd1_of OP_CONDITIONAL_ZERO) st of
             Return ret st1 \<Rightarrow>
               if ret = EXIT_SUCCESS then
                 (case c2 of
                    None \<Rightarrow> Undef st1
                  | Some b \<Rightarrow> parse_command k b (Cmd2_of OP_CONDITIONAL_ZERO) st1)
               else Return EXIT_FAILURE st1
           | Die m st1 \<Rightarrow> Die m st1
           | Hang st1 \<Rightarrow> Hang st1
           | Undef st1 \<Rightarrow> Undef st1))"
| "parse_command k (Op OP_PIPE c1 c2) pos st =
     (let ((fdin_copy, fdout_copy, fderr_copy), s3) = save_streams st;
          ((rc, rd, wr), s4) = sys_pipe s3
      in if rc < 0 then Die ''pipe'' s4
         else
           (case sys_fork k s4 of
              None \<Rightarrow> Die ''fork'' s4
            | Some pid_first \<Rightarrow>
                (case child_fate
                        (case pipe_child_setup rd wr (child_state s4) of
                           Return u cs \<Rightarrow>
                             (case c1 of
                                None \<Rightarrow> Undef cs
                              | Some a \<Rightarrow>
                                  (case parse_command k a (Cmd1_of OP_PIPE) cs of
                                     Return ret cs1 \<Rightarrow>
                                       pipe_child_exit fdin_copy fdout_copy fderr_copy ret cs1
                                   | Die m cs1 \<Rightarrow> Die m cs1
                                   | Hang cs1 \<Rightarrow> Hang cs1
                                   | Undef cs1 \<Rightarrow> Undef cs1))
                         | Die m cs \<Rightarrow> Die m cs
                         | Hang cs \<Rightarrow> Hang cs
                         | Undef cs \<Rightarrow> Undef cs) of
                   None \<Rightarrow> Undef s4
                 | Some fate \<Rightarrow>
                     (case pipe_parent_setup rd wr (adopt s4 pid_first fate) of
                        Return u s5 \<Rightarrow>
                          (case c2 of
                             None \<Rightarrow> Undef s5
                           | Some b \<Rightarrow>
                               (case parse_command k b (Cmd2_of OP_PIPE) s5 of
                                  Return pid_second s6 \<Rightarrow>
                                    pipe_finish k pid_first pid_second
                                      fdin_copy fdout_copy fderr_copy s6
                                | Die m s6 \<Rightarrow> Die m s6
                                | Hang s6 \<Rightarrow> Hang s6
                                | Undef s6 \<Rightarrow> Undef s6))
                      | Die m s5 \<Rightarrow> Die m s5
                      | Hang s5 \<Rightarrow> Hang s5
                      | Undef s5 \<Rightarrow> Undef s5))))"
| "parse_command k (Scmd s) pos st = parse_simple k s pos st"
| "parse_command k Dummy pos st = Return EXIT_SUCCESS st"

section \<open>Notions used to state the properties\<close>

text \<open>What an outcome returned, and the state it left.\<close>

fun returned :: "'a outcome \<Rightarrow> 'a option" where
  "returned (Return x st) = Some x"
| "returned (Die m st) = None"
| "returned (Hang st) = None"
| "returned (Undef st) = None"

fun final :: "'a outcome \<Rightarrow> state" where
  "final (Return x st) = st"
| "final (Die m st) = st"
| "final (Hang st) = st"
| "final (Undef st) = st"

text \<open>The outcome is one the C standard leaves open.\<close>

fun indeterminate :: "'a outcome \<Rightarrow> bool" where
  "indeterminate (Undef st) = True"
| "indeterminate (Return x st) = False"
| "indeterminate (Die m st) = False"
| "indeterminate (Hang st) = False"

text \<open>The three standard streams are open.\<close>

definition std_open :: "state \<Rightarrow> bool" where
  "std_open st \<longleftrightarrow>
     fds st STDIN_FILENO \<noteq> None \<and> fds st STDOUT_FILENO \<noteq> None \<and> fds st STDERR_FILENO \<noteq> None"


text \<open>
  \<open>parse_simple\<close> up to line 130, for a command other than \<open>exit\<close> and \<open>quit\<close>: the
  three calls of \<open>dup\<close> and the redirections of the standard output and error. An
  external command forks in the state this leaves.
\<close>

definition leaf_setup :: "kernel \<Rightarrow> simple_command \<Rightarrow> state \<Rightarrow> unit outcome" where
  "leaf_setup k s st =
     apply_io k s (map_option get_word (scmd_out s)) (map_option get_word (scmd_err s))
       (snd (save_streams st))"


text \<open>
  A pipe node up to line 314: the calls of \<open>dup\<close>, \<open>pipe\<close> and \<open>fork\<close>, the whole
  run of the left child, and the parent's binding of its standard input. It returns
  the process id of the left child; the right side is evaluated in the state it leaves.
\<close>

definition pipe_setup :: "kernel \<Rightarrow> command option \<Rightarrow> state \<Rightarrow> int outcome" where
  "pipe_setup k c1 st =
     (let ((fdin_copy, fdout_copy, fderr_copy), s3) = save_streams st;
          ((rc, rd, wr), s4) = sys_pipe s3
      in if rc < 0 then Die ''pipe'' s4
         else
           (case sys_fork k s4 of
              None \<Rightarrow> Die ''fork'' s4
            | Some pid_first \<Rightarrow>
                (case child_fate
                        (case pipe_child_setup rd wr (child_state s4) of
                           Return u cs \<Rightarrow>
                             (case c1 of
                                None \<Rightarrow> Undef cs
                              | Some a \<Rightarrow>
                                  (case parse_command k a (Cmd1_of OP_PIPE) cs of
                                     Return ret cs1 \<Rightarrow>
                                       pipe_child_exit fdin_copy fdout_copy fderr_copy ret cs1
                                   | Die m cs1 \<Rightarrow> Die m cs1
                                   | Hang cs1 \<Rightarrow> Hang cs1
                                   | Undef cs1 \<Rightarrow> Undef cs1))
                         | Die m cs \<Rightarrow> Die m cs
                         | Hang cs \<Rightarrow> Hang cs
                         | Undef cs \<Rightarrow> Undef cs) of
                   None \<Rightarrow> Undef s4
                 | Some fate \<Rightarrow>
                     (case pipe_parent_setup rd wr (adopt s4 pid_first fate) of
                        Return u s5 \<Rightarrow> Return pid_first s5
                      | Die m s5 \<Rightarrow> Die m s5
                      | Hang s5 \<Rightarrow> Hang s5
                      | Undef s5 \<Rightarrow> Undef s5))))"

text \<open>
  A child of a Parallel node (lines 235-236 and 244-245): the subtree is evaluated in the
  child and the child calls \<open>exit(ret)\<close>. The result is the way the child ends, with
  the state it ends in.
\<close>

definition forked :: "kernel \<Rightarrow> command \<Rightarrow> position \<Rightarrow> state \<Rightarrow> (ending option \<times> state) option" where
  "forked k c pos st = child_fate (exit_with (parse_command k c pos (child_state st)))"

text \<open>The parent of a Parallel node after its first \<open>fork\<close> (line 238).\<close>

definition after_first_fork :: "kernel \<Rightarrow> command \<Rightarrow> state \<Rightarrow> state" where
  "after_first_fork k a st =
     (case sys_fork k st of
        None \<Rightarrow> st
      | Some pid_first \<Rightarrow>
          (case forked k a (Cmd1_of OP_PARALLEL) st of
             None \<Rightarrow> st
           | Some fate \<Rightarrow> adopt st pid_first fate))"

text \<open>
  From \<open>st\<close> to \<open>st'\<close> the descriptor table changed at the standard output and error
  only, which are open in \<open>st'\<close>, and the limit did not change.
\<close>

definition out_err_frame :: "state \<Rightarrow> state \<Rightarrow> bool" where
  "out_err_frame st st' \<longleftrightarrow>
     fd_limit st' = fd_limit st \<and>
     fds st' STDOUT_FILENO \<noteq> None \<and> fds st' STDERR_FILENO \<noteq> None \<and>
     (\<forall>i. i \<noteq> STDOUT_FILENO \<longrightarrow> i \<noteq> STDERR_FILENO \<longrightarrow> fds st' i = fds st i)"

section \<open>A concrete kernel and process for the examples\<close>

text \<open>
  A kernel in which the path \<open>missing\<close> does not exist until it is created, the path
  \<open>locked\<close> can never be opened, only \<open>/tmp\<close> is a directory one can change to, the
  programs \<open>true\<close>, \<open>false\<close> and \<open>grep\<close> exit with the statuses 0, 1 and 2, and no other
  program is found. Process ids grow with the history.
\<close>

definition demo_kernel :: kernel where
  "demo_kernel =
     \<lparr>k_open = (\<lambda>h p fl. if p = ''locked'' then Some EACCES
                         else if p = ''missing'' \<and> fl AND O_CREAT = 0 then Some ENOENT
                         else None),
      k_chdir = (\<lambda>h d p. if p = ''/tmp'' then Inr ''/tmp'' else Inl ENOENT),
      k_fork = (\<lambda>h. Some (length h + 100)),
      k_exec = (\<lambda>h argv. if argv ! 0 = ''true'' then Exec_runs (Some (Exited 0))
                          else if argv ! 0 = ''false'' then Exec_runs (Some (Exited 1))
                          else if argv ! 0 = ''grep'' then Exec_runs (Some (Exited 2))
                          else Exec_error ENOENT),
      k_pick = (\<lambda>h ps. hd ps)\<rparr>"

text \<open>A shell process with its three standard streams open and no children.\<close>

definition demo_state :: state where
  "demo_state =
     \<lparr>fds = [0 \<mapsto> Inherited 0, 1 \<mapsto> Inherited 1, 2 \<mapsto> Inherited 2],
      fd_limit = 16, serial = 0, cwd = ''/home'', env = Map.empty, errno = None,
      pgid = 50, children = [], log = []\<rparr>"

text \<open>The leaf of a command without redirections.\<close>

definition plain_scmd :: "string \<Rightarrow> string list \<Rightarrow> simple_command" where
  "plain_scmd v ps =
     \<lparr>verb = Word v None, params = map (\<lambda>p. Word p None) ps,
      scmd_in = None, scmd_out = None, scmd_err = None, io_flags = 0\<rparr>"

definition plain :: "string \<Rightarrow> string list \<Rightarrow> command" where
  "plain v ps = Scmd (plain_scmd v ps)"

text \<open>The same shell started with its standard output closed.\<close>

definition demo_state_no_stdout :: state where
  "demo_state_no_stdout = demo_state\<lparr>fds := (fds demo_state)(STDOUT_FILENO := None)\<rparr>"

text \<open>
  The shell in the state in which the right side of \<open>true | ...\<close> is evaluated: its
  standard input is the pipe and the left child is still to be waited for.
\<close>

definition demo_state_in_pipe :: state where
  "demo_state_in_pipe = final (pipe_setup demo_kernel (Some (plain ''true'' [])) demo_state)"

section \<open>Outcomes\<close>

lemma bind_Return:
  "bind m f = Return y st' \<longleftrightarrow> (\<exists>x st. m = Return x st \<and> f x st = Return y st')"
  by (cases m) (simp_all add: bind_def)

lemma returned_Some:
  "returned m = Some x \<longleftrightarrow> m = Return x (final m)"
  by (cases m) auto

section \<open>Properties of \<open>split_env_command\<close>\<close>

lemma NUL_not_eq [simp]: "NUL \<noteq> CHR ''=''" "CHR ''='' \<noteq> NUL"
  by (simp_all add: NUL_def)

lemma scan_eq_none:
  "CHR ''='' \<notin> set cs \<Longrightarrow> scan_eq cs p = None"
  by (induction cs arbitrary: p) auto

lemma scan_eq_append:
  "CHR ''='' \<notin> set pre \<Longrightarrow> scan_eq (pre @ CHR ''='' # rest) p = Some (p + length pre)"
  by (induction pre arbitrary: p) auto

lemma c_string_prefix:
  "NUL \<notin> set pre \<Longrightarrow> c_string (pre @ NUL # rest) 0 = Some pre"
  by (auto simp: c_string_def takeWhile_tail)

lemma c_string_after:
  "NUL \<notin> set post \<Longrightarrow> c_string (pre @ x # post @ [NUL]) (length pre + 1) = Some post"
  by (auto simp: c_string_def takeWhile_tail)

lemma split_env_command_decomposed:
  assumes "CHR ''='' \<notin> set pre" "NUL \<notin> set pre" "NUL \<notin> set post"
  shows "split_env_command (c_buffer (pre @ CHR ''='' # post)) = Some (pre, post)"
proof -
  have scan: "scan_eq (c_buffer (pre @ CHR ''='' # post)) 0 = Some (length pre)"
    using scan_eq_append [OF assms(1), of "post @ [NUL]" 0] by (simp add: c_buffer_def)
  have upd: "(c_buffer (pre @ CHR ''='' # post))[length pre := NUL] = pre @ NUL # post @ [NUL]"
    by (simp add: c_buffer_def list_update_append)
  show ?thesis
    using c_string_prefix [OF assms(2), of "post @ [NUL]"] c_string_after [OF assms(3), of pre NUL]
    by (simp add: split_env_command_def scan upd)
qed

text \<open>
  Claim C10. When the argument string (a C string, so without NUL) contains the character
  \<open>=\<close>, the scan of \<open>split_env_command\<close> stops at the first \<open>=\<close>, at an index inside
  the string, having read no byte outside the buffer, and the function splits the string
  there: the name is the part before the first \<open>=\<close> and the value the part after it.
\<close>

theorem split_env_command_first_eq:
  assumes "NUL \<notin> set s" and "CHR ''='' \<in> set s"
  shows "split_env_command (c_buffer s) =
           Some (takeWhile (\<lambda>c. c \<noteq> CHR ''='') s, tl (dropWhile (\<lambda>c. c \<noteq> CHR ''='') s))
         \<and> (\<exists>p. scan_eq (c_buffer s) 0 = Some p \<and> p < length s \<and> s ! p = CHR ''=''
                \<and> (\<forall>i < p. s ! i \<noteq> CHR ''=''))"
proof -
  from assms(2) obtain pre post where s: "s = pre @ CHR ''='' # post" and pre: "CHR ''='' \<notin> set pre"
    by (auto dest: split_list_first)
  have tw: "takeWhile (\<lambda>c. c \<noteq> CHR ''='') s = pre"
    using pre by (auto simp: s takeWhile_tail)
  have dw: "dropWhile (\<lambda>c. c \<noteq> CHR ''='') s = CHR ''='' # post"
    using pre by (auto simp: s dropWhile_append3)
  have scan: "scan_eq (c_buffer s) 0 = Some (length pre)"
    using scan_eq_append [OF pre, of "post @ [NUL]" 0] by (simp add: c_buffer_def s)
  have before: "\<forall>i < length pre. s ! i \<noteq> CHR ''=''"
    using pre by (auto simp: s nth_append dest: nth_mem)
  have "split_env_command (c_buffer s) = Some (pre, post)"
    using split_env_command_decomposed [OF pre, of post] assms(1) by (simp add: s)
  then show ?thesis
    using scan before by (simp add: tw dw) (simp add: s)
qed

theorem split_env_command_first_eq_witness:
  "NUL \<notin> set ''A=b=c'' \<and> CHR ''='' \<in> set ''A=b=c'' \<and>
   split_env_command (c_buffer ''A=b=c'') = Some (''A'', ''b=c'')"
  using split_env_command_first_eq [of "''A=b=c''"] by (simp add: NUL_def)

text \<open>Without an \<open>=\<close> the scan runs over the terminator and leaves the buffer.\<close>

lemma split_env_command_no_eq:
  "CHR ''='' \<notin> set s \<Longrightarrow> split_env_command (c_buffer s) = None"
  by (simp add: split_env_command_def c_buffer_def scan_eq_none)

text \<open>
  \<open>parse_simple\<close> calls \<open>split_env_command\<close> on \<open>args[0]\<close> only when the part after
  the first part of the verb is the string \<open>=\<close>; \<open>args[0]\<close> then contains an \<open>=\<close>.
\<close>

lemma is_assignment_has_eq:
  "is_assignment s \<Longrightarrow> CHR ''='' \<in> set (get_argv s ! 0)"
  by (cases "verb s"; cases "next_part (verb s)"; cases "the (next_part (verb s))")
     (auto simp: is_assignment_def get_argv_def)

section \<open>The operators that run their children in the shell process\<close>

text \<open>
  Claim C1, as amended. A Sequential node whose left child yields the shell-exit sentinel
  returns what that child returned, sentinel and state, whatever its right child is: the
  right child is not evaluated. A Sequential node (with or without a left child), an
  IfFailed and an IfSucceeded node that evaluates its right child returns the outcome of
  that child, so a sentinel from the right child is returned unchanged. An IfFailed or
  IfSucceeded node whose left child yields the sentinel returns in the state that child
  left, whatever its right child is: the right child is not evaluated (the value the node
  then returns is not part of the statement). A Parallel node, whenever it returns,
  returns success, so never the sentinel. Pipe nodes are not part of the statement.
\<close>

theorem shell_exit_propagation:
  "(returned (parse_command k a (Cmd1_of OP_SEQUENTIAL) st) = Some SHELL_EXIT \<longrightarrow>
      parse_command k (Op OP_SEQUENTIAL (Some a) c2) pos st =
      parse_command k a (Cmd1_of OP_SEQUENTIAL) st)
   \<and> (returned (parse_command k a (Cmd1_of OP_SEQUENTIAL) st) = Some r \<and> r \<noteq> SHELL_EXIT \<longrightarrow>
      parse_command k (Op OP_SEQUENTIAL (Some a) (Some b)) pos st =
      parse_command k b (Cmd2_of OP_SEQUENTIAL) (final (parse_command k a (Cmd1_of OP_SEQUENTIAL) st)))
   \<and> parse_command k (Op OP_SEQUENTIAL None (Some b)) pos st =
      parse_command k b (Cmd2_of OP_SEQUENTIAL) st
   \<and> (returned (parse_command k a (Cmd1_of OP_CONDITIONAL_NZERO) st) = Some EXIT_FAILURE \<longrightarrow>
      parse_command k (Op OP_CONDITIONAL_NZERO (Some a) (Some b)) pos st =
      parse_command k b (Cmd2_of OP_CONDITIONAL_NZERO)
        (final (parse_command k a (Cmd1_of OP_CONDITIONAL_NZERO) st)))
   \<and> (returned (parse_command k a (Cmd1_of OP_CONDITIONAL_ZERO) st) = Some EXIT_SUCCESS \<longrightarrow>
      parse_command k (Op OP_CONDITIONAL_ZERO (Some a) (Some b)) pos st =
      parse_command k b (Cmd2_of OP_CONDITIONAL_ZERO)
        (final (parse_command k a (Cmd1_of OP_CONDITIONAL_ZERO) st)))
   \<and> (returned (parse_command k a (Cmd1_of OP_CONDITIONAL_NZERO) st) = Some SHELL_EXIT \<longrightarrow>
      returned (parse_command k (Op OP_CONDITIONAL_NZERO (Some a) c2) pos st) \<noteq> None
      \<and> final (parse_command k (Op OP_CONDITIONAL_NZERO (Some a) c2) pos st) =
        final (parse_command k a (Cmd1_of OP_CONDITIONAL_NZERO) st))
   \<and> (returned (parse_command k a (Cmd1_of OP_CONDITIONAL_ZERO) st) = Some SHELL_EXIT \<longrightarrow>
      returned (parse_command k (Op OP_CONDITIONAL_ZERO (Some a) c2) pos st) \<noteq> None
      \<and> final (parse_command k (Op OP_CONDITIONAL_ZERO (Some a) c2) pos st) =
        final (parse_command k a (Cmd1_of OP_CONDITIONAL_ZERO) st))
   \<and> (returned (parse_command k (Op OP_PARALLEL c1 c2) pos st) = Some r' \<longrightarrow> r' = EXIT_SUCCESS)"
proof (intro conjI impI)
  assume "returned (parse_command k a (Cmd1_of OP_SEQUENTIAL) st) = Some SHELL_EXIT"
  then show "parse_command k (Op OP_SEQUENTIAL (Some a) c2) pos st =
      parse_command k a (Cmd1_of OP_SEQUENTIAL) st"
    by (cases "parse_command k a (Cmd1_of OP_SEQUENTIAL) st") simp_all
next
  assume "returned (parse_command k a (Cmd1_of OP_SEQUENTIAL) st) = Some r \<and> r \<noteq> SHELL_EXIT"
  then show "parse_command k (Op OP_SEQUENTIAL (Some a) (Some b)) pos st =
      parse_command k b (Cmd2_of OP_SEQUENTIAL) (final (parse_command k a (Cmd1_of OP_SEQUENTIAL) st))"
    by (cases "parse_command k a (Cmd1_of OP_SEQUENTIAL) st") simp_all
next
  show "parse_command k (Op OP_SEQUENTIAL None (Some b)) pos st =
      parse_command k b (Cmd2_of OP_SEQUENTIAL) st"
    by simp
next
  assume "returned (parse_command k a (Cmd1_of OP_CONDITIONAL_NZERO) st) = Some EXIT_FAILURE"
  then show "parse_command k (Op OP_CONDITIONAL_NZERO (Some a) (Some b)) pos st =
      parse_command k b (Cmd2_of OP_CONDITIONAL_NZERO)
        (final (parse_command k a (Cmd1_of OP_CONDITIONAL_NZERO) st))"
    by (cases "parse_command k a (Cmd1_of OP_CONDITIONAL_NZERO) st") simp_all
next
  assume "returned (parse_command k a (Cmd1_of OP_CONDITIONAL_ZERO) st) = Some EXIT_SUCCESS"
  then show "parse_command k (Op OP_CONDITIONAL_ZERO (Some a) (Some b)) pos st =
      parse_command k b (Cmd2_of OP_CONDITIONAL_ZERO)
        (final (parse_command k a (Cmd1_of OP_CONDITIONAL_ZERO) st))"
    by (cases "parse_command k a (Cmd1_of OP_CONDITIONAL_ZERO) st") simp_all
next
  assume h: "returned (parse_command k a (Cmd1_of OP_CONDITIONAL_NZERO) st) = Some SHELL_EXIT"
  then show "returned (parse_command k (Op OP_CONDITIONAL_NZERO (Some a) c2) pos st) \<noteq> None"
    by (cases "parse_command k a (Cmd1_of OP_CONDITIONAL_NZERO) st")
       (simp_all add: SHELL_EXIT_def EXIT_FAILURE_def)
  from h show "final (parse_command k (Op OP_CONDITIONAL_NZERO (Some a) c2) pos st) =
        final (parse_command k a (Cmd1_of OP_CONDITIONAL_NZERO) st)"
    by (cases "parse_command k a (Cmd1_of OP_CONDITIONAL_NZERO) st")
       (simp_all add: SHELL_EXIT_def EXIT_FAILURE_def)
next
  assume h: "returned (parse_command k a (Cmd1_of OP_CONDITIONAL_ZERO) st) = Some SHELL_EXIT"
  then show "returned (parse_command k (Op OP_CONDITIONAL_ZERO (Some a) c2) pos st) \<noteq> None"
    by (cases "parse_command k a (Cmd1_of OP_CONDITIONAL_ZERO) st")
       (simp_all add: SHELL_EXIT_def EXIT_SUCCESS_def)
  from h show "final (parse_command k (Op OP_CONDITIONAL_ZERO (Some a) c2) pos st) =
        final (parse_command k a (Cmd1_of OP_CONDITIONAL_ZERO) st)"
    by (cases "parse_command k a (Cmd1_of OP_CONDITIONAL_ZERO) st")
       (simp_all add: SHELL_EXIT_def EXIT_SUCCESS_def)
next
  assume "returned (parse_command k (Op OP_PARALLEL c1 c2) pos st) = Some r'"
  then have "\<exists>st'. parse_command k (Op OP_PARALLEL c1 c2) pos st = Return r' st'"
    by (auto simp: returned_Some)
  then show "r' = EXIT_SUCCESS"
    by (auto simp: bind_Return Let_def split: option.splits)
qed

text \<open>On \<open>exit; true\<close>, \<open>true; exit\<close>, a Sequential node with only the right child
  \<open>exit\<close>, \<open>false || exit\<close>, \<open>true && quit\<close>, \<open>exit || true\<close>, \<open>exit && true\<close> and
  \<open>exit & true\<close>; where the history is empty the program \<open>true\<close> was never started.\<close>

theorem shell_exit_propagation_witness:
  "returned (parse_command demo_kernel
      (Op OP_SEQUENTIAL (Some (plain ''exit'' [])) (Some (plain ''true'' []))) Root demo_state)
     = Some SHELL_EXIT
   \<and> log (final (parse_command demo_kernel
      (Op OP_SEQUENTIAL (Some (plain ''exit'' [])) (Some (plain ''true'' []))) Root demo_state)) = []
   \<and> returned (parse_command demo_kernel
      (Op OP_SEQUENTIAL (Some (plain ''true'' [])) (Some (plain ''exit'' []))) Root demo_state)
     = Some SHELL_EXIT
   \<and> returned (parse_command demo_kernel
      (Op OP_SEQUENTIAL None (Some (plain ''exit'' []))) Root demo_state)
     = Some SHELL_EXIT
   \<and> returned (parse_command demo_kernel
      (Op OP_CONDITIONAL_NZERO (Some (plain ''false'' [])) (Some (plain ''exit'' []))) Root demo_state)
     = Some SHELL_EXIT
   \<and> returned (parse_command demo_kernel
      (Op OP_CONDITIONAL_ZERO (Some (plain ''true'' [])) (Some (plain ''quit'' []))) Root demo_state)
     = Some SHELL_EXIT
   \<and> log (final (parse_command demo_kernel
      (Op OP_CONDITIONAL_NZERO (Some (plain ''exit'' [])) (Some (plain ''true'' []))) Root demo_state)) = []
   \<and> log (final (parse_command demo_kernel
      (Op OP_CONDITIONAL_ZERO (Some (plain ''exit'' [])) (Some (plain ''true'' []))) Root demo_state)) = []
   \<and> returned (parse_command demo_kernel
      (Op OP_PARALLEL (Some (plain ''exit'' [])) (Some (plain ''true'' []))) Root demo_state)
     = Some EXIT_SUCCESS"
proof -
  let ?k = demo_kernel and ?s = demo_state
  have a1: "returned (parse_command ?k (plain ''exit'' []) (Cmd1_of OP_SEQUENTIAL) ?s) = Some SHELL_EXIT"
    by code_simp
  have l1: "log (final (parse_command ?k (plain ''exit'' []) (Cmd1_of OP_SEQUENTIAL) ?s)) = []"
    by code_simp
  have a2: "returned (parse_command ?k (plain ''true'' []) (Cmd1_of OP_SEQUENTIAL) ?s) = Some 0 \<and> 0 \<noteq> SHELL_EXIT"
    by code_simp
  have b2: "returned (parse_command ?k (plain ''exit'' []) (Cmd2_of OP_SEQUENTIAL)
      (final (parse_command ?k (plain ''true'' []) (Cmd1_of OP_SEQUENTIAL) ?s))) = Some SHELL_EXIT"
    by code_simp
  have b2': "returned (parse_command ?k (plain ''exit'' []) (Cmd2_of OP_SEQUENTIAL) ?s) = Some SHELL_EXIT"
    by code_simp
  have a3: "returned (parse_command ?k (plain ''false'' []) (Cmd1_of OP_CONDITIONAL_NZERO) ?s) = Some EXIT_FAILURE"
    by code_simp
  have b3: "returned (parse_command ?k (plain ''exit'' []) (Cmd2_of OP_CONDITIONAL_NZERO)
      (final (parse_command ?k (plain ''false'' []) (Cmd1_of OP_CONDITIONAL_NZERO) ?s))) = Some SHELL_EXIT"
    by code_simp
  have a4: "returned (parse_command ?k (plain ''true'' []) (Cmd1_of OP_CONDITIONAL_ZERO) ?s) = Some EXIT_SUCCESS"
    by code_simp
  have b4: "returned (parse_command ?k (plain ''quit'' []) (Cmd2_of OP_CONDITIONAL_ZERO)
      (final (parse_command ?k (plain ''true'' []) (Cmd1_of OP_CONDITIONAL_ZERO) ?s))) = Some SHELL_EXIT"
    by code_simp
  have a5: "returned (parse_command ?k (plain ''exit'' []) (Cmd1_of OP_CONDITIONAL_NZERO) ?s) = Some SHELL_EXIT"
    "log (final (parse_command ?k (plain ''exit'' []) (Cmd1_of OP_CONDITIONAL_NZERO) ?s)) = []"
    by code_simp+
  have a6: "returned (parse_command ?k (plain ''exit'' []) (Cmd1_of OP_CONDITIONAL_ZERO) ?s) = Some SHELL_EXIT"
    "log (final (parse_command ?k (plain ''exit'' []) (Cmd1_of OP_CONDITIONAL_ZERO) ?s)) = []"
    by code_simp+
  have a7: "returned (parse_command ?k
      (Op OP_PARALLEL (Some (plain ''exit'' [])) (Some (plain ''true'' []))) Root ?s) = Some 0"
    by code_simp
  note t = shell_exit_propagation
  have w1: "parse_command ?k (Op OP_SEQUENTIAL (Some (plain ''exit'' [])) (Some (plain ''true'' []))) Root ?s
      = parse_command ?k (plain ''exit'' []) (Cmd1_of OP_SEQUENTIAL) ?s"
    using t [where k = ?k and a = "plain ''exit'' []" and st = ?s and pos = Root
               and ?c2.0 = "Some (plain ''true'' [])"] a1 by blast
  have w2: "parse_command ?k (Op OP_SEQUENTIAL (Some (plain ''true'' [])) (Some (plain ''exit'' []))) Root ?s
      = parse_command ?k (plain ''exit'' []) (Cmd2_of OP_SEQUENTIAL)
          (final (parse_command ?k (plain ''true'' []) (Cmd1_of OP_SEQUENTIAL) ?s))"
    using t [where k = ?k and a = "plain ''true'' []" and st = ?s and pos = Root and r = 0
           and b = "plain ''exit'' []"] a2 by blast
  have w3: "parse_command ?k (Op OP_SEQUENTIAL None (Some (plain ''exit'' []))) Root ?s
      = parse_command ?k (plain ''exit'' []) (Cmd2_of OP_SEQUENTIAL) ?s"
    using t [where k = ?k and st = ?s and pos = Root and b = "plain ''exit'' []"] by blast
  have w4: "parse_command ?k (Op OP_CONDITIONAL_NZERO (Some (plain ''false'' [])) (Some (plain ''exit'' []))) Root ?s
      = parse_command ?k (plain ''exit'' []) (Cmd2_of OP_CONDITIONAL_NZERO)
          (final (parse_command ?k (plain ''false'' []) (Cmd1_of OP_CONDITIONAL_NZERO) ?s))"
    using t [where k = ?k and a = "plain ''false'' []" and st = ?s and pos = Root
           and b = "plain ''exit'' []"] a3 by blast
  have w5: "parse_command ?k (Op OP_CONDITIONAL_ZERO (Some (plain ''true'' [])) (Some (plain ''quit'' []))) Root ?s
      = parse_command ?k (plain ''quit'' []) (Cmd2_of OP_CONDITIONAL_ZERO)
          (final (parse_command ?k (plain ''true'' []) (Cmd1_of OP_CONDITIONAL_ZERO) ?s))"
    using t [where k = ?k and a = "plain ''true'' []" and st = ?s and pos = Root
           and b = "plain ''quit'' []"] a4 by blast
  have w6: "final (parse_command ?k (Op OP_CONDITIONAL_NZERO (Some (plain ''exit'' [])) (Some (plain ''true'' []))) Root ?s)
      = final (parse_command ?k (plain ''exit'' []) (Cmd1_of OP_CONDITIONAL_NZERO) ?s)"
    using t [where k = ?k and a = "plain ''exit'' []" and st = ?s and pos = Root
           and ?c2.0 = "Some (plain ''true'' [])"] a5(1) by blast
  have w7: "final (parse_command ?k (Op OP_CONDITIONAL_ZERO (Some (plain ''exit'' [])) (Some (plain ''true'' []))) Root ?s)
      = final (parse_command ?k (plain ''exit'' []) (Cmd1_of OP_CONDITIONAL_ZERO) ?s)"
    using t [where k = ?k and a = "plain ''exit'' []" and st = ?s and pos = Root
           and ?c2.0 = "Some (plain ''true'' [])"] a6(1) by blast
  have w8: "(0::int) = EXIT_SUCCESS"
    using t [where k = ?k and st = ?s and pos = Root and ?c1.0 = "Some (plain ''exit'' [])"
           and ?c2.0 = "Some (plain ''true'' [])" and r' = 0] a7 by blast
  show ?thesis
    by (simp only: w1 w2 w3 w4 w5 w6 w7 a1 l1 b2 b2' b3 b4 a5 a6 a7 w8 [symmetric])
qed

text \<open>
  Claim C1 as stated fails. The child \<open>exit\<close> of a Parallel node yields the sentinel in
  its own process and the node returns success; a Pipe node with \<open>exit\<close> on the left
  returns the status of its right side; the conditional nodes turn a sentinel from
  their left child into failure (IfSucceeded) or success (IfFailed).
\<close>

theorem shell_exit_not_propagated:
  "returned (parse_command demo_kernel (plain ''exit'' []) (Cmd1_of OP_PARALLEL) (child_state demo_state))
     = Some SHELL_EXIT
   \<and> returned (parse_command demo_kernel
        (Op OP_PARALLEL (Some (plain ''exit'' [])) (Some (plain ''true'' []))) Root demo_state)
     = Some EXIT_SUCCESS
   \<and> returned (parse_command demo_kernel
        (Op OP_PIPE (Some (plain ''exit'' [])) (Some (plain ''grep'' []))) Root demo_state)
     = Some 2
   \<and> returned (parse_command demo_kernel (plain ''exit'' []) (Cmd1_of OP_CONDITIONAL_ZERO) demo_state)
     = Some SHELL_EXIT
   \<and> returned (parse_command demo_kernel
        (Op OP_CONDITIONAL_ZERO (Some (plain ''exit'' [])) (Some (plain ''true'' []))) Root demo_state)
     = Some EXIT_FAILURE
   \<and> returned (parse_command demo_kernel
        (Op OP_CONDITIONAL_NZERO (Some (plain ''exit'' [])) (Some (plain ''true'' []))) Root demo_state)
     = Some EXIT_SUCCESS
   \<and> SHELL_EXIT \<noteq> EXIT_SUCCESS \<and> SHELL_EXIT \<noteq> EXIT_FAILURE \<and> SHELL_EXIT \<noteq> 2"
  by code_simp

text \<open>What an IfFailed node does with the result of its left child: the right child
  runs only for the result \<open>EXIT_FAILURE\<close>, which is 1.\<close>

lemma conditional_nzero_result:
  assumes "returned (parse_command k a (Cmd1_of OP_CONDITIONAL_NZERO) st) = Some r"
  shows "parse_command k (Op OP_CONDITIONAL_NZERO (Some a) (Some b)) pos st =
           (if r = EXIT_FAILURE
            then parse_command k b (Cmd2_of OP_CONDITIONAL_NZERO)
                   (final (parse_command k a (Cmd1_of OP_CONDITIONAL_NZERO) st))
            else Return EXIT_SUCCESS (final (parse_command k a (Cmd1_of OP_CONDITIONAL_NZERO) st)))"
  using assms by (cases "parse_command k a (Cmd1_of OP_CONDITIONAL_NZERO) st") simp_all

text \<open>
  Claim C2 at \<open>grep || true\<close>, where \<open>grep\<close> exits with the status 2: the claim has the
  right child run for every non-zero result of the left child. The node compares the
  result with \<open>EXIT_FAILURE\<close>, so here it returns success and the history ends with the
  left child: \<open>true\<close> is never started.
\<close>

theorem conditional_nzero_status_two:
  "returned (parse_command demo_kernel (plain ''grep'' []) (Cmd1_of OP_CONDITIONAL_NZERO) demo_state)
     = Some 2
   \<and> returned (parse_command demo_kernel
        (Op OP_CONDITIONAL_NZERO (Some (plain ''grep'' [])) (Some (plain ''true'' []))) Root demo_state)
     = Some EXIT_SUCCESS
   \<and> log (final (parse_command demo_kernel
        (Op OP_CONDITIONAL_NZERO (Some (plain ''grep'' [])) (Some (plain ''true'' []))) Root demo_state))
     = log (final (parse_command demo_kernel (plain ''grep'' []) (Cmd1_of OP_CONDITIONAL_NZERO) demo_state))"
  by code_simp

text \<open>
  Claim C3, as amended. For IfSucceeded(A, B), with \<open>r\<close> the result of A: when \<open>r\<close> is 0
  the node is the evaluation of B in the state A left; when \<open>r\<close> is not 0 the node ends
  in the state A left, whatever B is, so B is not evaluated; and when \<open>r\<close> is an
  ordinary non-zero status the node returns \<open>EXIT_FAILURE\<close>, which is 1 and not the
  status of A.
\<close>

theorem conditional_zero_result:
  assumes "returned (parse_command k a (Cmd1_of OP_CONDITIONAL_ZERO) st) = Some r"
  shows "(r = EXIT_SUCCESS \<longrightarrow>
            parse_command k (Op OP_CONDITIONAL_ZERO (Some a) (Some b)) pos st =
            parse_command k b (Cmd2_of OP_CONDITIONAL_ZERO)
              (final (parse_command k a (Cmd1_of OP_CONDITIONAL_ZERO) st)))
       \<and> (r \<noteq> EXIT_SUCCESS \<longrightarrow>
            final (parse_command k (Op OP_CONDITIONAL_ZERO (Some a) c2) pos st) =
            final (parse_command k a (Cmd1_of OP_CONDITIONAL_ZERO) st))
       \<and> (r \<noteq> EXIT_SUCCESS \<and> r \<noteq> SHELL_EXIT \<longrightarrow>
            parse_command k (Op OP_CONDITIONAL_ZERO (Some a) c2) pos st =
            Return EXIT_FAILURE (final (parse_command k a (Cmd1_of OP_CONDITIONAL_ZERO) st)))"
  using assms by (cases "parse_command k a (Cmd1_of OP_CONDITIONAL_ZERO) st") simp_all

text \<open>On \<open>grep && true\<close> and on \<open>true && false\<close>.\<close>

theorem conditional_zero_result_witness:
  "returned (parse_command demo_kernel (plain ''grep'' []) (Cmd1_of OP_CONDITIONAL_ZERO) demo_state) = Some 2
   \<and> parse_command demo_kernel
        (Op OP_CONDITIONAL_ZERO (Some (plain ''grep'' [])) (Some (plain ''true'' []))) Root demo_state
     = Return EXIT_FAILURE
         (final (parse_command demo_kernel (plain ''grep'' []) (Cmd1_of OP_CONDITIONAL_ZERO) demo_state))
   \<and> returned (parse_command demo_kernel (plain ''true'' []) (Cmd1_of OP_CONDITIONAL_ZERO) demo_state)
     = Some EXIT_SUCCESS
   \<and> parse_command demo_kernel
        (Op OP_CONDITIONAL_ZERO (Some (plain ''true'' [])) (Some (plain ''false'' []))) Root demo_state
     = parse_command demo_kernel (plain ''false'' []) (Cmd2_of OP_CONDITIONAL_ZERO)
         (final (parse_command demo_kernel (plain ''true'' []) (Cmd1_of OP_CONDITIONAL_ZERO) demo_state))"
proof -
  let ?k = demo_kernel and ?s = demo_state
  have a1: "returned (parse_command ?k (plain ''grep'' []) (Cmd1_of OP_CONDITIONAL_ZERO) ?s) = Some 2"
    by code_simp
  have n1: "(2::int) \<noteq> EXIT_SUCCESS \<and> 2 \<noteq> SHELL_EXIT"
    by code_simp
  have a2: "returned (parse_command ?k (plain ''true'' []) (Cmd1_of OP_CONDITIONAL_ZERO) ?s)
              = Some EXIT_SUCCESS"
    by code_simp
  show ?thesis
    using conditional_zero_result [OF a1, where ?c2.0 = "Some (plain ''true'' [])" and pos = Root]
      conditional_zero_result [OF a2, where b = "plain ''false'' []" and pos = Root]
      a1 n1 a2
    by simp
qed

text \<open>Claim C3 as stated fails: \<open>grep\<close> fails with the status 2, and the node
  \<open>grep && true\<close> returns 1.\<close>

theorem conditional_zero_not_own_status:
  "returned (parse_command demo_kernel (plain ''grep'' []) (Cmd1_of OP_CONDITIONAL_ZERO) demo_state) = Some 2
   \<and> returned (parse_command demo_kernel
        (Op OP_CONDITIONAL_ZERO (Some (plain ''grep'' [])) (Some (plain ''true'' []))) Root demo_state)
     = Some 1"
  by code_simp

section \<open>The redirection helper and the built-in \<open>cd\<close>\<close>

text \<open>
  Claim C8 at two calls. With the intent to read a path that does not exist, the helper
  opens the path a second time, creating it with mode 0644, binds the standard input to
  the new write-only file and returns: the failure is not fatal and the intent does not
  imply writing. With the intent to write a path whose \<open>open\<close> fails with \<open>EACCES\<close>, the
  second \<open>open\<close> is attempted as well, before the process ends.
\<close>

theorem redirect_retries_any_failure:
  "returned (redirect demo_kernel STDIN_FILENO (Some ''missing'') O_RDONLY demo_state) = Some ()
   \<and> log (final (redirect demo_kernel STDIN_FILENO (Some ''missing'') O_RDONLY demo_state)) =
       [Ev_open ''missing'' O_RDONLY None (Some ENOENT),
        Ev_open ''missing'' (O_CREAT OR O_TRUNC OR O_WRONLY) (Some 420) None]
   \<and> fds (final (redirect demo_kernel STDIN_FILENO (Some ''missing'') O_RDONLY demo_state)) STDIN_FILENO =
       Some (Opened 0 ''missing'' (O_CREAT OR O_TRUNC OR O_WRONLY))
   \<and> returned (redirect demo_kernel STDOUT_FILENO (Some ''locked'') O_WRONLY demo_state) = None
   \<and> log (final (redirect demo_kernel STDOUT_FILENO (Some ''locked'') O_WRONLY demo_state)) =
       [Ev_open ''locked'' (O_TRUNC OR O_WRONLY) None (Some EACCES),
        Ev_open ''locked'' (O_CREAT OR O_TRUNC OR O_WRONLY) (Some 420) (Some EACCES)]"
  by code_simp

text \<open>
  Claim C9 at \<open>cd /nowhere\<close>, a directory that \<open>chdir\<close> refuses: the evaluator returns
  \<open>EXIT_FAILURE\<close> and leaves the working directory as it was, but the history holds the
  failed \<open>chdir\<close> and nothing else: no message is written to the error stream.
\<close>

theorem cd_failure_prints_nothing:
  "returned (parse_command demo_kernel (plain ''cd'' [''/nowhere'']) Root demo_state) = Some EXIT_FAILURE
   \<and> cwd (final (parse_command demo_kernel (plain ''cd'' [''/nowhere'']) Root demo_state)) = cwd demo_state
   \<and> log (final (parse_command demo_kernel (plain ''cd'' [''/nowhere'']) Root demo_state)) =
       [Ev_chdir ''/nowhere'' (Some ENOENT)]"
  by code_simp

text \<open>In general: \<open>shell_cd\<close> yields a \<open>bool\<close>, so \<open>ret\<close> is 0 or 1 and the branch that
  prints is never taken. A failed \<open>chdir\<close> gives the result 1 and writes nothing.\<close>

lemma builtin_cd_failure:
  assumes "params s = dir # ds" and "k_chdir k (log st) (cwd st) (w_string dir) = Inl e"
  shows "builtin_cd k s st =
           Return EXIT_FAILURE (st\<lparr>errno := Some e, log := log st @ [Ev_chdir (w_string dir) (Some e)]\<rparr>)"
  using assms by (simp add: builtin_cd_def shell_cd_def sys_chdir_def EXIT_FAILURE_def)

section \<open>Descriptors: what each call changes\<close>

lemma free_fds_hd:
  assumes "free_fds st = n # ns"
  shows "fds st n = None" and "0 \<le> n" and "n < fd_limit st"
proof -
  have "n \<in> set (free_fds st)" using assms by simp
  then show "fds st n = None" and "0 \<le> n" and "n < fd_limit st"
    by (auto simp: free_fds_def)
qed

lemma lowest_free_Some:
  assumes "lowest_free st = Some n"
  shows "fds st n = None" and "0 \<le> n" and "n < fd_limit st"
  using assms free_fds_hd [of st n]
  by (auto simp: lowest_free_def split: list.splits)

lemma sys_open_result:
  assumes "sys_open k path flags mode st = (n, st')"
  shows "fd_limit st' = fd_limit st \<and> children st' = children st \<and>
         (n = - 1 \<and> fds st' = fds st \<or>
          0 \<le> n \<and> n < fd_limit st \<and> fds st n = None \<and> (\<exists>f. fds st' = (fds st)(n \<mapsto> f)))"
  using assms
  by (auto simp: sys_open_def split: option.splits dest: lowest_free_Some)

lemma redirect_frame:
  assumes "redirect k fd path flag st = Return u st'" and "fds st fd \<noteq> None"
  shows "fd_limit st' = fd_limit st" and "children st' = children st"
    and "fds st' fd \<noteq> None" and "\<And>i. i \<noteq> fd \<Longrightarrow> fds st' i = fds st i"
  using assms
  by (auto simp: redirect_def bind_def sys_dup2_def sys_close_def
      split: if_splits prod.splits outcome.splits dest!: sys_open_result)

lemma sys_dup_result:
  assumes "sys_dup fd st = (c, st')"
  shows "fd_limit st' = fd_limit st \<and> children st' = children st \<and> log st' = log st \<and>
         cwd st' = cwd st \<and> serial st' = serial st \<and>
         (c = - 1 \<and> fds st' = fds st \<or>
          0 \<le> c \<and> c < fd_limit st \<and> fds st c = None \<and> fds st fd \<noteq> None \<and>
          fds st' = (fds st)(c := fds st fd))"
  using assms
  by (auto simp: sys_dup_def split: if_splits option.splits dest: lowest_free_Some)

lemma restore_fd_result:
  assumes "restore_fd fd c st = Return u st'"
  shows "0 \<le> c" and "fds st c \<noteq> None" and "fds st' = (fds st)(fd := fds st c, c := None)"
    and "fd_limit st' = fd_limit st" and "children st' = children st" and "log st' = log st"
    and "cwd st' = cwd st"
  using assms
  by (auto simp: restore_fd_def sys_dup2_def sys_close_def split: if_splits prod.splits)

lemma out_err_frame_refl:
  "fds st STDOUT_FILENO \<noteq> None \<Longrightarrow> fds st STDERR_FILENO \<noteq> None \<Longrightarrow> out_err_frame st st"
  by (simp add: out_err_frame_def)

lemma out_err_frame_same:
  "out_err_frame st st1 \<Longrightarrow> fds st2 = fds st1 \<Longrightarrow> fd_limit st2 = fd_limit st1 \<Longrightarrow>
   out_err_frame st st2"
  by (simp add: out_err_frame_def)

lemma redirect_out_err:
  assumes "redirect k fd p fl st1 = Return u st2"
    and "fd = STDOUT_FILENO \<or> fd = STDERR_FILENO"
    and "out_err_frame st st1"
  shows "out_err_frame st st2"
proof -
  have open1: "fds st1 fd \<noteq> None"
    using assms(2,3) by (auto simp: out_err_frame_def)
  note f = redirect_frame [OF assms(1) open1]
  show ?thesis
    using assms(2,3) f(1,3) f(4) [of STDOUT_FILENO] f(4) [of STDERR_FILENO] f(4)
    by (auto simp: out_err_frame_def STDOUT_FILENO_def STDERR_FILENO_def)
qed

lemma apply_io_frame:
  assumes "apply_io k s file_out file_err st = Return u st'"
    and "fds st STDOUT_FILENO \<noteq> None" and "fds st STDERR_FILENO \<noteq> None"
  shows "out_err_frame st st'"
  using assms(1) out_err_frame_refl [OF assms(2,3)]
  by (auto simp: apply_io_def bind_Return split: if_splits)
     (blast intro: redirect_out_err)+



lemma builtin_cd_fds:
  "builtin_cd k s st = Return r st' \<Longrightarrow> fds st' = fds st \<and> fd_limit st' = fd_limit st"
  by (auto simp: builtin_cd_def shell_cd_def sys_chdir_def sys_write_def
      split: list.splits prod.splits sum.splits if_splits option.splits)

lemma builtin_pwd_fds:
  "builtin_pwd st = Return r st' \<Longrightarrow> fds st' = fds st \<and> fd_limit st' = fd_limit st"
  by (auto simp: builtin_pwd_def sys_getcwd_def sys_write_def
      split: prod.splits if_splits option.splits)

lemma env_assignment_fds:
  "env_assignment a st = Return r st' \<Longrightarrow> fds st' = fds st \<and> fd_limit st' = fd_limit st"
  by (auto simp: env_assignment_def sys_setenv_def sys_write_def
      split: prod.splits if_splits option.splits)

lemma sys_waitpid_fds:
  "sys_waitpid k p st = Return r st' \<Longrightarrow> fds st' = fds st \<and> fd_limit st' = fd_limit st"
  by (auto simp: sys_waitpid_def Let_def split: if_splits option.splits)

lemma adopt_fds [simp]:
  "fds (adopt st p fate) = fds st" "fd_limit (adopt st p fate) = fd_limit st"
  by (simp_all add: adopt_def)

lemma run_external_fds:
  "run_external k s pos file_in args st = Return r st' \<Longrightarrow>
   fds st' = fds st \<and> fd_limit st' = fd_limit st"
  by (auto simp: run_external_def sys_wait_def bind_Return Let_def
      split: option.splits if_splits dest!: sys_waitpid_fds)

lemma scmd_body_frame:
  assumes "scmd_body k s pos file_in file_out file_err args st = Return r st'"
    and "fds st STDOUT_FILENO \<noteq> None" and "fds st STDERR_FILENO \<noteq> None"
  shows "out_err_frame st st'"
proof (cases "args ! 0 = ''exit'' \<or> args ! 0 = ''quit''")
  case True
  then show ?thesis
    using assms by (auto simp: scmd_body_def intro: out_err_frame_refl)
next
  case False
  then obtain u st1 where io: "apply_io k s file_out file_err st = Return u st1"
    and rest: "(if args ! 0 = ''cd'' then builtin_cd k s st1
                else if args ! 0 = ''pwd'' then builtin_pwd st1
                else if is_assignment s then env_assignment (args ! 0) st1
                else run_external k s pos file_in args st1) = Return r st'"
    using assms(1) by (auto simp: scmd_body_def bind_Return)
  have "fds st' = fds st1 \<and> fd_limit st' = fd_limit st1"
    using rest
    by (auto split: if_splits dest: builtin_cd_fds builtin_pwd_fds env_assignment_fds run_external_fds)
  then show ?thesis
    using apply_io_frame [OF io assms(2,3)] by (auto intro: out_err_frame_same)
qed

lemma save_streams_result:
  assumes "save_streams st = ((c0, c1, c2), s3)"
  shows "fd_limit s3 = fd_limit st" and "children s3 = children st" and "log s3 = log st"
    and "cwd s3 = cwd st" and "serial s3 = serial st"
  using assms
  by (auto simp: save_streams_def split: prod.splits dest!: sys_dup_result)

lemma save_streams_fds:
  assumes "save_streams st = ((c0, c1, c2), s3)" and "std_open st"
    and "0 \<le> c0" and "0 \<le> c1" and "0 \<le> c2"
  shows "fds s3 = (fds st)(c0 := fds st STDIN_FILENO, c1 := fds st STDOUT_FILENO,
                           c2 := fds st STDERR_FILENO)"
    and "fds st c0 = None" and "fds st c1 = None" and "fds st c2 = None"
    and "c0 \<noteq> c1" and "c0 \<noteq> c2" and "c1 \<noteq> c2"
    and "c0 < fd_limit st" and "c1 < fd_limit st" and "c2 < fd_limit st"
proof -
  obtain s1 s2 where d0: "sys_dup STDIN_FILENO st = (c0, s1)"
    and d1: "sys_dup STDOUT_FILENO s1 = (c1, s2)"
    and d2: "sys_dup STDERR_FILENO s2 = (c2, s3)"
    using assms(1) by (auto simp: save_streams_def split: prod.splits)
  have std: "fds st 0 \<noteq> None" "fds st 1 \<noteq> None" "fds st 2 \<noteq> None"
    using assms(2) by (simp_all add: std_open_def STDIN_FILENO_def STDOUT_FILENO_def STDERR_FILENO_def)
  have e0: "fds st c0 = None" "fds s1 = (fds st)(c0 := fds st 0)" "c0 < fd_limit st"
    "fd_limit s1 = fd_limit st"
    using sys_dup_result [OF d0] assms(3) by (auto simp: STDIN_FILENO_def)
  have e1: "fds s1 c1 = None" "fds s2 = (fds s1)(c1 := fds s1 1)" "c1 < fd_limit s1"
    "fd_limit s2 = fd_limit s1"
    using sys_dup_result [OF d1] assms(4) by (auto simp: STDOUT_FILENO_def)
  have e2: "fds s2 c2 = None" "fds s3 = (fds s2)(c2 := fds s2 2)" "c2 < fd_limit s2"
    using sys_dup_result [OF d2] assms(5) by (auto simp: STDERR_FILENO_def)
  have n0: "c0 \<noteq> 0" "c0 \<noteq> 1" "c0 \<noteq> 2"
    using e0(1) std by auto
  have n1: "c1 \<noteq> c0" "c1 \<noteq> 0" "c1 \<noteq> 1" "c1 \<noteq> 2"
    using e1(1) e0(2) std n0 by (auto split: if_splits)
  have n2: "c2 \<noteq> c1" "c2 \<noteq> c0" "c2 \<noteq> 0" "c2 \<noteq> 1" "c2 \<noteq> 2"
    using e2(1) e1(2) e0(2) std n0 n1 by (auto split: if_splits)
  show "fds s3 = (fds st)(c0 := fds st STDIN_FILENO, c1 := fds st STDOUT_FILENO,
                           c2 := fds st STDERR_FILENO)"
    using e0(2) e1(2) e2(2) n0 n1 n2
    by (auto simp: STDIN_FILENO_def STDOUT_FILENO_def STDERR_FILENO_def)
  show "fds st c0 = None" by (rule e0(1))
  show "fds st c1 = None" using e1(1) e0(2) n1 by (auto split: if_splits)
  show "fds st c2 = None" using e2(1) e1(2) e0(2) n2 by (auto split: if_splits)
  show "c0 \<noteq> c1" "c0 \<noteq> c2" "c1 \<noteq> c2" using n1 n2 by auto
  show "c0 < fd_limit st" "c1 < fd_limit st" "c2 < fd_limit st"
    using e0 e1 e2 by auto
qed

lemma restore_all_result:
  assumes "restore_all c0 c1 c2 st = Return u st'"
  shows "0 \<le> c0" and "0 \<le> c1" and "0 \<le> c2"
    and "fds st' = (fds st)(STDIN_FILENO := fds st c0, c0 := None,
            STDOUT_FILENO := ((fds st)(STDIN_FILENO := fds st c0, c0 := None)) c1, c1 := None,
            STDERR_FILENO := ((fds st)(STDIN_FILENO := fds st c0, c0 := None,
               STDOUT_FILENO := ((fds st)(STDIN_FILENO := fds st c0, c0 := None)) c1, c1 := None)) c2,
            c2 := None)"
    and "fd_limit st' = fd_limit st" and "children st' = children st" and "log st' = log st"
    and "cwd st' = cwd st"
proof -
  obtain u1 t1 u2 t2 where r0: "restore_fd STDIN_FILENO c0 st = Return u1 t1"
    and r1: "restore_fd STDOUT_FILENO c1 t1 = Return u2 t2"
    and r2: "restore_fd STDERR_FILENO c2 t2 = Return u st'"
    using assms by (auto simp: restore_all_def bind_Return)
  note a = restore_fd_result [OF r0] and b = restore_fd_result [OF r1]
    and c = restore_fd_result [OF r2]
  show "0 \<le> c0" "0 \<le> c1" "0 \<le> c2" by (rule a(1) b(1) c(1))+
  show "fd_limit st' = fd_limit st" "children st' = children st" "log st' = log st"
    "cwd st' = cwd st"
    using a(4-7) b(4-7) c(4-7) by simp_all
  show "fds st' = (fds st)(STDIN_FILENO := fds st c0, c0 := None,
            STDOUT_FILENO := ((fds st)(STDIN_FILENO := fds st c0, c0 := None)) c1, c1 := None,
            STDERR_FILENO := ((fds st)(STDIN_FILENO := fds st c0, c0 := None,
               STDOUT_FILENO := ((fds st)(STDIN_FILENO := fds st c0, c0 := None)) c1, c1 := None)) c2,
            c2 := None)"
    unfolding c(3) b(3) a(3) ..
qed

text \<open>The table after the three restores, when the copies are those of \<open>save_streams\<close>
  and the table in between changed at the standard output and error only.\<close>

lemma saved_then_restored:
  assumes sv: "save_streams st = ((c0, c1, c2), s3)" and std: "std_open st"
    and fr: "\<And>i. i \<noteq> STDIN_FILENO \<Longrightarrow> i \<noteq> STDOUT_FILENO \<Longrightarrow> i \<noteq> STDERR_FILENO \<Longrightarrow> fds s4 i = fds s3 i"
    and rs: "restore_all c0 c1 c2 s4 = Return u st'"
  shows "fds st' = fds st"
proof -
  note r = restore_all_result [OF rs]
  note v = save_streams_fds [OF sv std r(1,2,3)]
  have std': "fds st 0 \<noteq> None" "fds st 1 \<noteq> None" "fds st 2 \<noteq> None"
    using std by (simp_all add: std_open_def STDIN_FILENO_def STDOUT_FILENO_def STDERR_FILENO_def)
  have n: "c0 \<noteq> 0" "c0 \<noteq> 1" "c0 \<noteq> 2" "c1 \<noteq> 0" "c1 \<noteq> 1" "c1 \<noteq> 2" "c2 \<noteq> 0" "c2 \<noteq> 1" "c2 \<noteq> 2"
    using v(2,3,4) std' by auto
  have k: "fds s4 c0 = fds st 0" "fds s4 c1 = fds st 1" "fds s4 c2 = fds st 2"
    using fr [of c0] fr [of c1] fr [of c2] n v(1) v(5,6,7)
    by (auto simp: STDIN_FILENO_def STDOUT_FILENO_def STDERR_FILENO_def)
  show ?thesis
  proof (rule ext)
    fix i
    show "fds st' i = fds st i"
      using r(4) k n v(2,3,4) v(5,6,7) fr [of i] v(1)
      by (auto simp: STDIN_FILENO_def STDOUT_FILENO_def STDERR_FILENO_def)
  qed
qed

text \<open>A leaf that returns leaves the descriptor table and the limit as they were.\<close>

lemma parse_simple_keeps_fds:
  assumes "parse_simple k s pos st = Return r st'" and "std_open st"
  shows "fds st' = fds st" and "fd_limit st' = fd_limit st"
proof -
  obtain c0 c1 c2 s3 where sv: "save_streams st = ((c0, c1, c2), s3)"
    by (metis prod.exhaust)
  from assms(1) obtain ret' s4 u where
    body: "scmd_body k s pos (map_option get_word (scmd_in s)) (map_option get_word (scmd_out s))
             (map_option get_word (scmd_err s)) (get_argv s) s3 = Return ret' s4"
    and rs: "restore_all c0 c1 c2 s4 = Return u st'"
    by (auto simp: parse_simple_def sv bind_Return)
  note r = restore_all_result [OF rs]
  note v = save_streams_fds [OF sv assms(2) r(1,2,3)]
  have std': "fds st 0 \<noteq> None" "fds st 1 \<noteq> None" "fds st 2 \<noteq> None"
    using assms(2) by (simp_all add: std_open_def STDIN_FILENO_def STDOUT_FILENO_def STDERR_FILENO_def)
  have o3: "fds s3 STDOUT_FILENO \<noteq> None" "fds s3 STDERR_FILENO \<noteq> None"
    using v(1) v(2,3,4) std' by (auto simp: STDOUT_FILENO_def STDERR_FILENO_def)
  have fr: "out_err_frame s3 s4"
    by (rule scmd_body_frame [OF body o3])
  show "fds st' = fds st"
    using saved_then_restored [OF sv assms(2) _ rs] fr by (auto simp: out_err_frame_def)
  show "fd_limit st' = fd_limit st"
    using fr r(5) save_streams_result(1) [OF sv] by (simp add: out_err_frame_def)
qed

text \<open>
  Claim C7, as amended. When the three standard streams are open before the call and
  the evaluation of a leaf returns, by whichever path (\<open>exit\<close> or \<open>quit\<close>, \<open>cd\<close>,
  \<open>pwd\<close>, an assignment, an external command waited for or not), each of the three
  standard descriptors refers to the open file description it referred to before the
  call, and so does every other descriptor: the whole table is as before.
\<close>

theorem parse_simple_restores_streams:
  assumes "returned (parse_simple k s pos st) = Some r" and "std_open st"
  shows "fds (final (parse_simple k s pos st)) STDIN_FILENO = fds st STDIN_FILENO
       \<and> fds (final (parse_simple k s pos st)) STDOUT_FILENO = fds st STDOUT_FILENO
       \<and> fds (final (parse_simple k s pos st)) STDERR_FILENO = fds st STDERR_FILENO
       \<and> fds (final (parse_simple k s pos st)) = fds st"
proof -
  have "parse_simple k s pos st = Return r (final (parse_simple k s pos st))"
    using assms(1) by (simp add: returned_Some)
  then have "fds (final (parse_simple k s pos st)) = fds st"
    using assms(2) by (rule parse_simple_keeps_fds)
  then show ?thesis by simp
qed

text \<open>On \<open>grep > out 2> out\<close>, which rebinds both output streams three times and fails
  with the status 2.\<close>

theorem parse_simple_restores_streams_witness:
  "returned (parse_command demo_kernel
      (Scmd \<lparr>verb = Word ''grep'' None, params = [], scmd_in = None,
              scmd_out = Some (Word ''out'' None), scmd_err = Some (Word ''out'' None),
              io_flags = 0\<rparr>) Root demo_state) = Some 2
   \<and> std_open demo_state
   \<and> fds (final (parse_simple demo_kernel
      \<lparr>verb = Word ''grep'' None, params = [], scmd_in = None,
        scmd_out = Some (Word ''out'' None), scmd_err = Some (Word ''out'' None),
        io_flags = 0\<rparr> Root demo_state)) STDOUT_FILENO = Some (Inherited 1)
   \<and> fds (final (parse_simple demo_kernel
      \<lparr>verb = Word ''grep'' None, params = [], scmd_in = None,
        scmd_out = Some (Word ''out'' None), scmd_err = Some (Word ''out'' None),
        io_flags = 0\<rparr> Root demo_state)) STDERR_FILENO = Some (Inherited 2)"
proof -
  let ?s = "\<lparr>verb = Word ''grep'' None, params = [], scmd_in = None,
        scmd_out = Some (Word ''out'' None), scmd_err = Some (Word ''out'' None),
        io_flags = 0\<rparr>"
  have a: "returned (parse_simple demo_kernel ?s Root demo_state) = Some 2"
    by code_simp
  have b: "std_open demo_state"
    by code_simp
  have c: "fds demo_state STDOUT_FILENO = Some (Inherited 1)"
    "fds demo_state STDERR_FILENO = Some (Inherited 2)"
    by code_simp+
  show ?thesis
    using parse_simple_restores_streams [OF a b] a b c by simp
qed

text \<open>
  Claim C7 as stated fails when a standard stream is closed before the call. With the
  standard output closed, \<open>dup(STDIN_FILENO)\<close> returns the descriptor 1, the redirection
  of \<open>true > out\<close> overwrites that copy, and the leaf returns 0 with the standard input
  on the file \<open>out\<close> and the standard output on what was the standard input.
\<close>

theorem leaf_with_stdout_closed:
  "returned (parse_simple demo_kernel
      ((plain_scmd ''true'' [])\<lparr>scmd_out := Some (Word ''out'' None)\<rparr>) Root demo_state_no_stdout)
     = Some 0
   \<and> fds demo_state_no_stdout STDIN_FILENO = Some (Inherited 0)
   \<and> fds (final (parse_simple demo_kernel
      ((plain_scmd ''true'' [])\<lparr>scmd_out := Some (Word ''out'' None)\<rparr>) Root demo_state_no_stdout))
        STDIN_FILENO = Some (Opened 0 ''out'' (O_TRUNC OR O_WRONLY))
   \<and> fds demo_state_no_stdout STDOUT_FILENO = None
   \<and> fds (final (parse_simple demo_kernel
      ((plain_scmd ''true'' [])\<lparr>scmd_out := Some (Word ''out'' None)\<rparr>) Root demo_state_no_stdout))
        STDOUT_FILENO = Some (Inherited 0)"
  by code_simp

section \<open>Waiting for children\<close>

lemma dead_children_first:
  assumes "map_of xs p = Some (Some w)"
  shows "\<exists>rest. List.map_filter (\<lambda>c. map_option (Pair (fst c)) (snd c))
                  (filter (\<lambda>c. fst c = p) xs) = (p, w) # rest \<and> (\<forall>c \<in> set rest. fst c = p)"
  using assms
proof (induction xs)
  case Nil
  then show ?case by simp
next
  case (Cons x xs)
  show ?case
  proof (cases "fst x = p")
    case True
    then have "snd x = Some w" using Cons.prems by (cases x) auto
    then show ?thesis
      using True by (cases x) (auto simp: List.map_filter_def)
  next
    case False
    then show ?thesis using Cons by (cases x) auto
  qed
qed

lemma sys_waitpid_found:
  assumes "0 < p" and "map_of (children st) p = Some (Some w)"
  shows "sys_waitpid k p st =
           Return (p, Some w)
             (st\<lparr>children := filter (\<lambda>c. fst c \<noteq> p) (children st),
                 log := log st @ [Ev_wait p (Some (p, w))]\<rparr>)"
proof -
  have cands: "filter (\<lambda>c. waits_for st p (fst c)) (children st) = filter (\<lambda>c. fst c = p) (children st)"
    using assms(1) by (simp add: waits_for_def)
  obtain rest where dead: "List.map_filter (\<lambda>c. map_option (Pair (fst c)) (snd c))
      (filter (\<lambda>c. fst c = p) (children st)) = (p, w) # rest" and rest: "\<forall>c \<in> set rest. fst c = p"
    using dead_children_first [OF assms(2)] by blast
  have ne: "filter (\<lambda>c. fst c = p) (children st) \<noteq> []"
  proof
    assume "filter (\<lambda>c. fst c = p) (children st) = []"
    then show False using dead by (simp add: List.map_filter_def)
  qed
  have pick: "(if k_pick k (log st) (map fst ((p, w) # rest)) \<in> set (map fst ((p, w) # rest))
               then k_pick k (log st) (map fst ((p, w) # rest)) else fst (hd ((p, w) # rest))) = p"
    using rest by auto
  show ?thesis
    unfolding sys_waitpid_def cands Let_def dead
    using ne by (simp only: pick) simp
qed

lemma map_of_append_fresh:
  "p \<notin> fst ` set xs \<Longrightarrow> map_of (xs @ ys) p = map_of ys p"
  by (induction xs) auto

lemma filter_fresh:
  "p \<notin> fst ` set xs \<Longrightarrow> filter (\<lambda>c. fst c \<noteq> p) xs = xs"
  by (induction xs) auto

section \<open>Parallel nodes\<close>

lemma forked_own_result:
  assumes "map_option fst (forked k c pos st) = Some (Some e)"
    and "returned (parse_command k c pos (child_state st)) = Some r"
  shows "e = Exited r"
  using assms
  by (cases "parse_command k c pos (child_state st)") (auto simp: forked_def)

text \<open>
  Claim C6. For Parallel(A, B), when both calls of \<open>fork\<close> succeed (with process ids
  not in use) and both children end: each subtree is evaluated in its own child, which
  ends with \<open>exit\<close> of the result of that evaluation; the parent then waits for the
  first child and for the second, whatever their statuses, and returns \<open>EXIT_SUCCESS\<close>;
  afterwards neither child is left to be waited for.
\<close>

theorem parallel_returns_success:
  assumes f1: "k_fork k (log st) = Some n1"
    and c1: "map_option fst (forked k a (Cmd1_of OP_PARALLEL) st) = Some (Some e1)"
    and f2: "k_fork k (log (after_first_fork k a st)) = Some n2"
    and c2: "map_option fst (forked k b (Cmd2_of OP_PARALLEL) (after_first_fork k a st)) = Some (Some e2)"
    and fresh: "int n1 + 1 \<notin> fst ` set (children st)" "int n2 + 1 \<notin> fst ` set (children st)"
      "n1 \<noteq> n2"
  shows "returned (parse_command k (Op OP_PARALLEL (Some a) (Some b)) pos st) = Some EXIT_SUCCESS
       \<and> children (final (parse_command k (Op OP_PARALLEL (Some a) (Some b)) pos st)) = children st
       \<and> (\<exists>l1 l2. log (final (parse_command k (Op OP_PARALLEL (Some a) (Some b)) pos st)) =
             log st @ [Ev_fork (int n1 + 1) l1 (Some e1), Ev_fork (int n2 + 1) l2 (Some e2),
                       Ev_wait (int n1 + 1) (Some (int n1 + 1, wstatus_of e1)),
                       Ev_wait (int n2 + 1) (Some (int n2 + 1, wstatus_of e2))])
       \<and> (\<forall>r \<in> set_option (returned (parse_command k a (Cmd1_of OP_PARALLEL) (child_state st))).
             e1 = Exited r)
       \<and> (\<forall>r \<in> set_option (returned (parse_command k b (Cmd2_of OP_PARALLEL)
                                  (child_state (after_first_fork k a st)))).
             e2 = Exited r)"
proof -
  let ?p1 = "int n1 + 1" and ?p2 = "int n2 + 1"
  obtain cs1 where fate1: "forked k a (Cmd1_of OP_PARALLEL) st = Some (Some e1, cs1)"
    using c1 by (cases "forked k a (Cmd1_of OP_PARALLEL) st") auto
  define st1 where "st1 = adopt st ?p1 (Some e1, cs1)"
  have fork1: "sys_fork k st = Some ?p1"
    using f1 by (simp add: sys_fork_def)
  have aff: "after_first_fork k a st = st1"
    by (simp add: after_first_fork_def fork1 fate1 st1_def)
  obtain cs2 where fate2: "forked k b (Cmd2_of OP_PARALLEL) st1 = Some (Some e2, cs2)"
    using c2 unfolding aff by (cases "forked k b (Cmd2_of OP_PARALLEL) st1") auto
  define st2 where "st2 = adopt st1 ?p2 (Some e2, cs2)"
  have fork2: "sys_fork k st1 = Some ?p2"
    using f2 unfolding aff by (simp add: sys_fork_def)
  have ch2: "children st2 = children st @ [(?p1, Some (wstatus_of e1)), (?p2, Some (wstatus_of e2))]"
    by (simp add: st2_def st1_def adopt_def)
  have m1: "map_of (children st2) ?p1 = Some (Some (wstatus_of e1))"
    unfolding ch2 by (simp only: map_of_append_fresh [OF fresh(1)]) simp
  define st3 where "st3 = st2\<lparr>children := filter (\<lambda>c. fst c \<noteq> ?p1) (children st2),
                 log := log st2 @ [Ev_wait ?p1 (Some (?p1, wstatus_of e1))]\<rparr>"
  have w1: "sys_waitpid k ?p1 st2 = Return (?p1, Some (wstatus_of e1)) st3"
    unfolding st3_def by (rule sys_waitpid_found [OF _ m1]) simp
  have ch3: "children st3 = children st @ [(?p2, Some (wstatus_of e2))]"
    using fresh by (simp add: st3_def ch2 filter_fresh)
  have m2: "map_of (children st3) ?p2 = Some (Some (wstatus_of e2))"
    unfolding ch3 by (simp only: map_of_append_fresh [OF fresh(2)]) simp
  define st4 where "st4 = st3\<lparr>children := filter (\<lambda>c. fst c \<noteq> ?p2) (children st3),
                 log := log st3 @ [Ev_wait ?p2 (Some (?p2, wstatus_of e2))]\<rparr>"
  have w2: "sys_waitpid k ?p2 st3 = Return (?p2, Some (wstatus_of e2)) st4"
    unfolding st4_def by (rule sys_waitpid_found [OF _ m2]) simp
  have node: "parse_command k (Op OP_PARALLEL (Some a) (Some b)) pos st = Return EXIT_SUCCESS st4"
    using fork1 fate1 fork2 fate2 w1 w2
    by (simp add: forked_def st1_def [symmetric] st2_def [symmetric] bind_def)
  have ch4: "children st4 = children st"
    using fresh by (simp add: st4_def ch3 filter_fresh)
  have lg: "\<exists>l1 l2. log st4 =
             log st @ [Ev_fork ?p1 l1 (Some e1), Ev_fork ?p2 l2 (Some e2),
                       Ev_wait ?p1 (Some (?p1, wstatus_of e1)),
                       Ev_wait ?p2 (Some (?p2, wstatus_of e2))]"
    by (simp add: st4_def st3_def st2_def st1_def adopt_def)
  have o1: "\<forall>r \<in> set_option (returned (parse_command k a (Cmd1_of OP_PARALLEL) (child_state st))).
             e1 = Exited r"
    using forked_own_result [OF c1] by auto
  have o2: "\<forall>r \<in> set_option (returned (parse_command k b (Cmd2_of OP_PARALLEL)
                                  (child_state (after_first_fork k a st)))).
             e2 = Exited r"
    using forked_own_result [OF c2] by auto
  show ?thesis
    using node ch4 lg o1 o2 by simp
qed

text \<open>On \<open>false & false\<close>: both children fail with the status 1.\<close>

theorem parallel_returns_success_witness:
  "returned (parse_command demo_kernel
      (Op OP_PARALLEL (Some (plain ''false'' [])) (Some (plain ''false'' []))) Root demo_state)
     = Some EXIT_SUCCESS
   \<and> children (final (parse_command demo_kernel
      (Op OP_PARALLEL (Some (plain ''false'' [])) (Some (plain ''false'' []))) Root demo_state)) = []
   \<and> returned (parse_command demo_kernel (plain ''false'' []) (Cmd1_of OP_PARALLEL)
        (child_state demo_state)) = Some 1"
proof -
  let ?k = demo_kernel and ?s = demo_state and ?f = "plain ''false'' []"
  have f1: "k_fork ?k (log ?s) = Some 100"
    by code_simp
  have c1: "map_option fst (forked ?k ?f (Cmd1_of OP_PARALLEL) ?s) = Some (Some (Exited 1))"
    by code_simp
  have f2: "k_fork ?k (log (after_first_fork ?k ?f ?s)) = Some 101"
    by code_simp
  have c2: "map_option fst (forked ?k ?f (Cmd2_of OP_PARALLEL) (after_first_fork ?k ?f ?s))
              = Some (Some (Exited 1))"
    by code_simp
  have fr: "int 100 + 1 \<notin> fst ` set (children ?s)" "int 101 + 1 \<notin> fst ` set (children ?s)"
    "(100::nat) \<noteq> 101"
    by (simp_all add: demo_state_def)
  have r1: "returned (parse_command ?k ?f (Cmd1_of OP_PARALLEL) (child_state ?s)) = Some 1"
    by code_simp
  have ch: "children ?s = []"
    by (simp add: demo_state_def)
  show ?thesis
    using parallel_returns_success [OF f1 c1 f2 c2 fr, of Root] r1 ch by simp
qed

section \<open>When the calls on descriptors succeed\<close>

lemma distinct_free_fds: "distinct (free_fds st)"
  by (simp add: free_fds_def)

lemma free_fds_update:
  assumes "free_fds st = n # ns" and "v \<noteq> None"
  shows "free_fds (st\<lparr>fds := (fds st)(n := v)\<rparr>) = ns"
proof -
  have d: "n \<notin> set ns"
    using distinct_free_fds [of st] assms(1) by simp
  have "free_fds (st\<lparr>fds := (fds st)(n := v)\<rparr>) =
          filter (\<lambda>i. i \<noteq> n) (filter (\<lambda>i. fds st i = None) [0..fd_limit st - 1])"
    using assms(2) by (auto simp: free_fds_def intro: filter_cong)
  also have "\<dots> = filter (\<lambda>i. i \<noteq> n) (n # ns)"
    using assms(1) by (simp add: free_fds_def)
  also have "\<dots> = ns"
    using d by (auto simp: filter_id_conv)
  finally show ?thesis .
qed

lemma sys_dup_succeeds:
  assumes "0 \<le> fd" and "fds st fd \<noteq> None" and "free_fds st = n # ns"
  shows "sys_dup fd st = (n, st\<lparr>fds := (fds st)(n := fds st fd)\<rparr>)"
    and "free_fds (st\<lparr>fds := (fds st)(n := fds st fd)\<rparr>) = ns"
  using assms free_fds_update [OF assms(3,2)]
  by (auto simp: sys_dup_def lowest_free_def)

lemma save_streams_succeeds:
  assumes "std_open st" and "free_fds st = c0 # c1 # c2 # rest"
  shows "\<exists>s3. save_streams st = ((c0, c1, c2), s3) \<and> free_fds s3 = rest"
proof -
  have std: "fds st 0 \<noteq> None" "fds st 1 \<noteq> None" "fds st 2 \<noteq> None"
    using assms(1) by (simp_all add: std_open_def STDIN_FILENO_def STDOUT_FILENO_def STDERR_FILENO_def)
  have free: "fds st c0 = None" "fds st c1 = None" "fds st c2 = None"
  proof -
    have "c0 \<in> set (free_fds st)" "c1 \<in> set (free_fds st)" "c2 \<in> set (free_fds st)"
      using assms(2) by simp_all
    then show "fds st c0 = None" "fds st c1 = None" "fds st c2 = None"
      by (auto simp: free_fds_def)
  qed
  have n: "c0 \<noteq> 1" "c0 \<noteq> 2" "c1 \<noteq> 2"
    using free std by auto
  define s1 where "s1 = st\<lparr>fds := (fds st)(c0 := fds st 0)\<rparr>"
  have d0: "sys_dup 0 st = (c0, s1)" and f1: "free_fds s1 = c1 # c2 # rest"
    using sys_dup_succeeds [OF _ std(1) assms(2)] by (simp_all add: s1_def)
  have o1: "fds s1 1 \<noteq> None"
    using std n by (simp add: s1_def)
  define s2 where "s2 = s1\<lparr>fds := (fds s1)(c1 := fds s1 1)\<rparr>"
  have d1: "sys_dup 1 s1 = (c1, s2)" and f2: "free_fds s2 = c2 # rest"
    using sys_dup_succeeds [OF _ o1 f1] by (simp_all add: s2_def)
  have o2: "fds s2 2 \<noteq> None"
    using std n by (simp add: s2_def s1_def)
  define s3 where "s3 = s2\<lparr>fds := (fds s2)(c2 := fds s2 2)\<rparr>"
  have d2: "sys_dup 2 s2 = (c2, s3)" and f3: "free_fds s3 = rest"
    using sys_dup_succeeds [OF _ o2 f2] by (simp_all add: s3_def)
  show ?thesis
    using d0 d1 d2 f3
    by (simp add: save_streams_def STDIN_FILENO_def STDOUT_FILENO_def STDERR_FILENO_def)
qed

lemma restore_fd_succeeds:
  assumes "0 \<le> c" and "fds st c \<noteq> None" and "0 \<le> fd" and "fd < fd_limit st" and "c \<noteq> fd"
  shows "restore_fd fd c st = Return () (st\<lparr>fds := (fds st)(fd := fds st c, c := None)\<rparr>)"
  using assms by (simp add: restore_fd_def sys_dup2_def sys_close_def)

lemma restore_all_succeeds:
  assumes "0 \<le> c0" "0 \<le> c1" "0 \<le> c2"
    and "fds st c0 \<noteq> None" "fds st c1 \<noteq> None" "fds st c2 \<noteq> None"
    and "c0 \<noteq> c1" "c0 \<noteq> c2" "c1 \<noteq> c2"
    and "c0 \<notin> {0, 1, 2}" "c1 \<notin> {0, 1, 2}" "c2 \<notin> {0, 1, 2}"
    and "2 < fd_limit st"
  shows "\<exists>st'. restore_all c0 c1 c2 st = Return () st'"
proof -
  define t1 where "t1 = st\<lparr>fds := (fds st)(0 := fds st c0, c0 := None)\<rparr>"
  have r0: "restore_fd 0 c0 st = Return () t1"
    unfolding t1_def using assms by (intro restore_fd_succeeds) auto
  define t2 where "t2 = t1\<lparr>fds := (fds t1)(1 := fds t1 c1, c1 := None)\<rparr>"
  have r1: "restore_fd 1 c1 t1 = Return () t2"
    unfolding t2_def using assms by (intro restore_fd_succeeds) (auto simp: t1_def)
  define t3 where "t3 = t2\<lparr>fds := (fds t2)(2 := fds t2 c2, c2 := None)\<rparr>"
  have r2: "restore_fd 2 c2 t2 = Return () t3"
    unfolding t3_def using assms by (intro restore_fd_succeeds) (auto simp: t2_def t1_def)
  show ?thesis
    using r0 r1 r2
    by (simp add: restore_all_def bind_def STDIN_FILENO_def STDOUT_FILENO_def STDERR_FILENO_def)
qed



section \<open>External commands\<close>

lemma WEXITSTATUS_Exited: "WEXITSTATUS (wstatus_of (Exited code)) = code mod 256"
  by (simp add: WEXITSTATUS_def)

lemma leaf_setup_plain:
  assumes "scmd_out s = None" and "scmd_err s = None" and "io_flags s = 0"
  shows "leaf_setup k s st = Return () (snd (save_streams st))"
  using assms by (simp add: leaf_setup_def apply_io_def)




section \<open>The descriptor table across a whole tree\<close>

text \<open>A pipe node is its setup, then the evaluation of the right side in the state the
  setup left, that is in the parent, then lines 317-324.\<close>

lemma parse_command_pipe:
  "parse_command k (Op OP_PIPE c1 (Some b)) pos st =
     bind (pipe_setup k c1 st)
       (\<lambda>pid_first s5.
          bind (parse_command k b (Cmd2_of OP_PIPE) s5)
            (\<lambda>pid_second s6.
               pipe_finish k pid_first pid_second
                 (fst (fst (save_streams st))) (fst (snd (fst (save_streams st))))
                 (snd (snd (fst (save_streams st)))) s6))"
  by (simp add: pipe_setup_def bind_def split: prod.splits option.splits outcome.splits)

lemma sys_pipe_result:
  assumes "sys_pipe st = ((rc, rd, wr), st')" and "\<not> rc < 0"
  shows "fd_limit st' = fd_limit st" and "children st' = children st" and "log st' = log st"
    and "fds st rd = None" and "fds st wr = None" and "rd \<noteq> wr"
    and "0 \<le> rd" and "0 \<le> wr" and "rd < fd_limit st" and "wr < fd_limit st"
    and "fds st' = (fds st)(rd \<mapsto> Pipe_read (serial st), wr \<mapsto> Pipe_write (serial st))"
proof -
  define st1 where "st1 = st\<lparr>fds := (fds st)(rd \<mapsto> Pipe_read (serial st))\<rparr>"
  from assms have l1: "lowest_free st = Some rd"
    by (auto simp: sys_pipe_def Let_def split: option.splits)
  from assms have l2: "lowest_free st1 = Some wr"
    by (auto simp: sys_pipe_def Let_def st1_def split: option.splits)
  from assms have eq: "st' = st1\<lparr>fds := (fds st1)(wr \<mapsto> Pipe_write (serial st)),
                               serial := serial st + 1\<rparr>"
    by (auto simp: sys_pipe_def Let_def st1_def split: option.splits)
  note a = lowest_free_Some [OF l1] and b = lowest_free_Some [OF l2]
  show "fd_limit st' = fd_limit st" "children st' = children st" "log st' = log st"
    by (simp_all add: eq st1_def)
  show "fds st rd = None" "0 \<le> rd" "rd < fd_limit st" by (rule a)+
  show "rd \<noteq> wr" using b(1) by (auto simp: st1_def)
  then show "fds st wr = None" using b(1) by (simp add: st1_def)
  show "0 \<le> wr" by (rule b(2))
  show "wr < fd_limit st" using b(3) by (simp add: st1_def)
  show "fds st' = (fds st)(rd \<mapsto> Pipe_read (serial st), wr \<mapsto> Pipe_write (serial st))"
    by (simp add: eq st1_def)
qed

lemma pipe_parent_setup_result:
  assumes "pipe_parent_setup rd wr st = Return u st'"
    and "rd \<noteq> STDIN_FILENO" and "wr \<noteq> STDIN_FILENO" and "rd \<noteq> wr"
  shows "fds st' = (fds st)(STDIN_FILENO := fds st rd, rd := None, wr := None)"
    and "fd_limit st' = fd_limit st" and "children st' = children st" and "log st' = log st"
  using assms
  by (auto simp: pipe_parent_setup_def sys_dup2_def sys_close_def split: if_splits prod.splits)

lemma pipe_setup_result:
  assumes ps: "pipe_setup k c st = Return p s5" and sv: "save_streams st = ((c0, c1, c2), s3)"
    and in3: "fds s3 STDIN_FILENO \<noteq> None"
  shows "fds s5 = (fds s3)(STDIN_FILENO \<mapsto> Pipe_read (serial st))"
    and "fd_limit s5 = fd_limit st" and "0 < p"
proof -
  obtain rc rd wr s4 where pp: "sys_pipe s3 = ((rc, rd, wr), s4)"
    by (metis prod.exhaust)
  have rc: "\<not> rc < 0"
    using ps by (auto simp: pipe_setup_def sv pp)
  note q = sys_pipe_result [OF pp rc]
  from ps obtain fate u where fk: "sys_fork k s4 = Some p"
    and su: "pipe_parent_setup rd wr (adopt s4 p fate) = Return u s5"
    using rc
    by (auto simp: pipe_setup_def sv pp split: option.splits outcome.splits)
  have ne: "rd \<noteq> STDIN_FILENO" "wr \<noteq> STDIN_FILENO"
    using q(4,5) in3 by auto
  note r = pipe_parent_setup_result [OF su ne q(6)]
  show "fds s5 = (fds s3)(STDIN_FILENO \<mapsto> Pipe_read (serial st))"
    using r(1) q(11) q(4,5,6) ne save_streams_result(5) [OF sv] by auto
  show "fd_limit s5 = fd_limit st"
    using r(2) q(1) save_streams_result(1) [OF sv] by simp
  show "0 < p"
    using fk by (auto simp: sys_fork_def)
qed

lemma pipe_finish_result:
  assumes "pipe_finish k p q c0 c1 c2 st = Return r st'"
  shows "\<exists>s8 u. fds s8 = fds st \<and> fd_limit s8 = fd_limit st \<and> restore_all c0 c1 c2 s8 = Return u st'"
  using assms
  by (auto simp: pipe_finish_def bind_Return split: option.splits dest!: sys_waitpid_fds)

text \<open>Whenever the evaluation of a tree returns, in a process whose standard streams
  were open, the descriptor table is what it was before.\<close>

lemma parse_command_keeps_fds:
  "parse_command k c pos st = Return r st' \<Longrightarrow> std_open st \<Longrightarrow>
   fds st' = fds st \<and> fd_limit st' = fd_limit st"
proof (induction c arbitrary: pos st r st')
  case (Scmd s)
  then show ?case
    using parse_simple_keeps_fds [of k s pos st r st'] by simp
next
  case Dummy
  then show ?case by simp
next
  case (Op op c1 c2)
  have keep: "std_open s \<Longrightarrow> fds s' = fds s \<Longrightarrow> std_open s'" for s s'
    by (simp add: std_open_def)
  show ?case
  proof (cases op)
    case OP_SEQUENTIAL
    show ?thesis
    proof (cases c1)
      case None
      then show ?thesis
        using Op.prems OP_SEQUENTIAL Op.IH(2) by (cases c2) auto
    next
      case (Some a)
      from Op.prems(1) obtain ra s1 where A: "parse_command k a (Cmd1_of OP_SEQUENTIAL) st = Return ra s1"
        by (auto simp: OP_SEQUENTIAL Some split: outcome.splits)
      have k1: "fds s1 = fds st \<and> fd_limit s1 = fd_limit st"
        using Op.IH(1) [of a, OF _ A Op.prems(2)] Some by simp
      show ?thesis
      proof (cases "ra = SHELL_EXIT")
        case True
        then show ?thesis using Op.prems(1) A k1 by (simp add: OP_SEQUENTIAL Some)
      next
        case False
        then obtain b where c2: "c2 = Some b"
          and B: "parse_command k b (Cmd2_of OP_SEQUENTIAL) s1 = Return r st'"
          using Op.prems(1) A by (cases c2) (auto simp: OP_SEQUENTIAL Some)
        show ?thesis
          using Op.IH(2) [of b, OF _ B keep [OF Op.prems(2)]] k1 c2 by simp
      qed
    qed
  next
    case OP_PARALLEL
    from Op.prems(1) show ?thesis
      by (auto simp: OP_PARALLEL bind_Return Let_def split: option.splits dest!: sys_waitpid_fds)
  next
    case OP_CONDITIONAL_ZERO
    from Op.prems(1) obtain a ra s1 where c1: "c1 = Some a"
      and A: "parse_command k a (Cmd1_of OP_CONDITIONAL_ZERO) st = Return ra s1"
      by (cases c1) (auto simp: OP_CONDITIONAL_ZERO split: outcome.splits)
    have k1: "fds s1 = fds st \<and> fd_limit s1 = fd_limit st"
      using Op.IH(1) [of a, OF _ A Op.prems(2)] c1 by simp
    show ?thesis
    proof (cases "ra = EXIT_SUCCESS")
      case False
      then show ?thesis using Op.prems(1) A k1 by (simp add: OP_CONDITIONAL_ZERO c1)
    next
      case True
      then obtain b where c2: "c2 = Some b"
        and B: "parse_command k b (Cmd2_of OP_CONDITIONAL_ZERO) s1 = Return r st'"
        using Op.prems(1) A by (cases c2) (auto simp: OP_CONDITIONAL_ZERO c1)
      show ?thesis
        using Op.IH(2) [of b, OF _ B keep [OF Op.prems(2)]] k1 c2 by simp
    qed
  next
    case OP_CONDITIONAL_NZERO
    from Op.prems(1) obtain a ra s1 where c1: "c1 = Some a"
      and A: "parse_command k a (Cmd1_of OP_CONDITIONAL_NZERO) st = Return ra s1"
      by (cases c1) (auto simp: OP_CONDITIONAL_NZERO split: outcome.splits)
    have k1: "fds s1 = fds st \<and> fd_limit s1 = fd_limit st"
      using Op.IH(1) [of a, OF _ A Op.prems(2)] c1 by simp
    show ?thesis
    proof (cases "ra = EXIT_FAILURE")
      case False
      then show ?thesis using Op.prems(1) A k1 by (simp add: OP_CONDITIONAL_NZERO c1)
    next
      case True
      then obtain b where c2: "c2 = Some b"
        and B: "parse_command k b (Cmd2_of OP_CONDITIONAL_NZERO) s1 = Return r st'"
        using Op.prems(1) A by (cases c2) (auto simp: OP_CONDITIONAL_NZERO c1)
      show ?thesis
        using Op.IH(2) [of b, OF _ B keep [OF Op.prems(2)]] k1 c2 by simp
    qed
  next
    case OP_PIPE
    obtain c0 c1' c2' s3 where sv: "save_streams st = ((c0, c1', c2'), s3)"
      by (metis prod.exhaust)
    have "c2 \<noteq> None"
      using Op.prems(1)
      by (cases c2)
         (auto simp: OP_PIPE sv split: prod.splits option.splits outcome.splits if_splits)
    then obtain b where c2: "c2 = Some b" by blast
    from Op.prems(1) obtain p s5 q s6 where ps: "pipe_setup k c1 st = Return p s5"
      and B: "parse_command k b (Cmd2_of OP_PIPE) s5 = Return q s6"
      and pf: "pipe_finish k p q c0 c1' c2' s6 = Return r st'"
      unfolding OP_PIPE c2 parse_command_pipe by (auto simp: bind_Return sv)
    obtain s8 u where f8: "fds s8 = fds s6" "fd_limit s8 = fd_limit s6"
      and rs: "restore_all c0 c1' c2' s8 = Return u st'"
      using pipe_finish_result [OF pf] by blast
    note rr = restore_all_result [OF rs]
    note v = save_streams_fds [OF sv Op.prems(2) rr(1,2,3)]
    have std': "fds st 0 \<noteq> None" "fds st 1 \<noteq> None" "fds st 2 \<noteq> None"
      using Op.prems(2)
      by (simp_all add: std_open_def STDIN_FILENO_def STDOUT_FILENO_def STDERR_FILENO_def)
    have o3: "fds s3 STDIN_FILENO \<noteq> None" "fds s3 STDOUT_FILENO \<noteq> None" "fds s3 STDERR_FILENO \<noteq> None"
      using v(1) v(2,3,4) std' by (auto simp: STDIN_FILENO_def STDOUT_FILENO_def STDERR_FILENO_def)
    note s = pipe_setup_result [OF ps sv o3(1)]
    have std5: "std_open s5"
      using s(1) o3 by (auto simp: std_open_def STDIN_FILENO_def STDOUT_FILENO_def STDERR_FILENO_def)
    have k6: "fds s6 = fds s5 \<and> fd_limit s6 = fd_limit s5"
      using Op.IH(2) [of b, OF _ B std5] c2 by simp
    have "fds st' = fds st"
      using saved_then_restored [OF sv Op.prems(2) _ rs] f8 k6 s(1) by auto
    moreover have "fd_limit st' = fd_limit st"
      using rr(5) f8 k6 s(2) by simp
    ultimately show ?thesis by simp
  qed
qed

section \<open>Pipe nodes\<close>

lemma map_of_filter_other:
  "r \<noteq> p \<Longrightarrow> map_of (filter (\<lambda>c. fst c \<noteq> p) xs) r = map_of xs r"
  by (induction xs) auto

lemma map_of_terminated:
  assumes "(p, None) \<notin> set xs" and "p \<in> fst ` set xs"
  shows "\<exists>w. map_of xs p = Some (Some w)"
proof -
  from assms(2) obtain v where v: "map_of xs p = Some v"
    by (metis domD dom_map_of_conv_image_fst)
  then have "(p, v) \<in> set xs" by (rule map_of_SomeD)
  then have "v \<noteq> None" using assms(1) by (cases v) auto
  then show ?thesis using v by auto
qed

lemma sys_waitpid_absent:
  assumes "0 < p" and "p \<notin> fst ` set (children st)"
  shows "sys_waitpid k p st =
           Return (- 1, None) (st\<lparr>errno := Some ECHILD, log := log st @ [Ev_wait p None]\<rparr>)"
proof -
  have "filter (\<lambda>c. waits_for st p (fst c)) (children st) = []"
    using assms by (auto simp: waits_for_def filter_empty_conv)
  then show ?thesis by (simp add: sys_waitpid_def)
qed

lemma sys_waitpid_terminated:
  assumes "0 < p" and "(p, None) \<notin> set (children st)"
  shows "\<exists>x st'. sys_waitpid k p st = Return x st' \<and>
           children st' = filter (\<lambda>c. fst c \<noteq> p) (children st) \<and>
           fds st' = fds st \<and> fd_limit st' = fd_limit st"
proof (cases "p \<in> fst ` set (children st)")
  case True
  then obtain w where "map_of (children st) p = Some (Some w)"
    using map_of_terminated [OF assms(2)] by blast
  then show ?thesis
    using sys_waitpid_found [OF assms(1), of st w k] by simp
next
  case False
  then show ?thesis
    using sys_waitpid_absent [OF assms(1) False, of k] by (simp add: filter_fresh)
qed

text \<open>
  The case in which a pipe node does return the status of its right side. For Pipe(A, B)
  in a shell with its standard streams open and three free descriptors, whose setup
  succeeds with the left child \<open>p1\<close>: B is evaluated in the parent, in a state whose
  standard input is the read end of the new pipe.
  If that evaluation returns \<open>r\<close> and \<open>r\<close> is the process id of a child of the shell
  that has ended with the wait status \<open>w\<close> and is not yet waited for, other than the left
  child (which, if still a child, has ended), then the node waits for both, so that neither
  remains a child, puts the descriptor table back as it was before the node, and returns
  \<open>WEXITSTATUS w\<close>.
\<close>

lemma pipe_returns_right_status:
  assumes std: "std_open st" and room: "3 \<le> length (free_fds st)"
    and su: "returned (pipe_setup k (Some a) st) = Some p1"
    and rt: "returned (parse_command k b (Cmd2_of OP_PIPE) (final (pipe_setup k (Some a) st))) = Some r"
    and pid: "0 < r" "r \<noteq> p1"
    and right: "map_of (children (final (parse_command k b (Cmd2_of OP_PIPE)
                  (final (pipe_setup k (Some a) st))))) r = Some (Some w)"
    and left: "(p1, None) \<notin> set (children (final (parse_command k b (Cmd2_of OP_PIPE)
                  (final (pipe_setup k (Some a) st)))))"
  shows "fds (final (pipe_setup k (Some a) st)) STDIN_FILENO = Some (Pipe_read (serial st))
       \<and> returned (parse_command k (Op OP_PIPE (Some a) (Some b)) pos st) = Some (WEXITSTATUS w)
       \<and> fds (final (parse_command k (Op OP_PIPE (Some a) (Some b)) pos st)) = fds st
       \<and> p1 \<notin> fst ` set (children (final (parse_command k (Op OP_PIPE (Some a) (Some b)) pos st)))
       \<and> r \<notin> fst ` set (children (final (parse_command k (Op OP_PIPE (Some a) (Some b)) pos st)))"
proof -
  define s5 where "s5 = final (pipe_setup k (Some a) st)"
  define s6 where "s6 = final (parse_command k b (Cmd2_of OP_PIPE) s5)"
  have ps: "pipe_setup k (Some a) st = Return p1 s5"
    using su by (simp add: returned_Some s5_def)
  have B: "parse_command k b (Cmd2_of OP_PIPE) s5 = Return r s6"
    using rt by (simp add: returned_Some s5_def s6_def)
  obtain c0 c1 c2 rest where free: "free_fds st = c0 # c1 # c2 # rest"
  proof (cases "free_fds st")
    case Nil
    then show ?thesis using room by simp
  next
    case (Cons x xs)
    note X = this
    show ?thesis
    proof (cases xs)
      case Nil
      then show ?thesis using room X by simp
    next
      case (Cons y ys)
      note Y = this
      show ?thesis
      proof (cases ys)
        case Nil
        then show ?thesis using room X Y by simp
      next
        case (Cons z zs)
        then show ?thesis using that X Y by simp
      qed
    qed
  qed
  obtain s3 where sv: "save_streams st = ((c0, c1, c2), s3)"
    using save_streams_succeeds [OF std free] by blast
  have mem: "c0 \<in> set (free_fds st)" "c1 \<in> set (free_fds st)" "c2 \<in> set (free_fds st)"
    using free by simp_all
  have ok: "0 \<le> c0" "0 \<le> c1" "0 \<le> c2"
    using mem by (auto simp: free_fds_def)
  note v = save_streams_fds [OF sv std ok]
  have std': "fds st 0 \<noteq> None" "fds st 1 \<noteq> None" "fds st 2 \<noteq> None"
    using std by (simp_all add: std_open_def STDIN_FILENO_def STDOUT_FILENO_def STDERR_FILENO_def)
  have o3: "fds s3 STDIN_FILENO \<noteq> None" "fds s3 STDOUT_FILENO \<noteq> None" "fds s3 STDERR_FILENO \<noteq> None"
    using v(1) v(2,3,4) std' by (auto simp: STDIN_FILENO_def STDOUT_FILENO_def STDERR_FILENO_def)
  note s = pipe_setup_result [OF ps sv o3(1)]
  have std5: "std_open s5"
    using s(1) o3 by (auto simp: std_open_def STDIN_FILENO_def STDOUT_FILENO_def STDERR_FILENO_def)
  have k6: "fds s6 = fds s5" "fd_limit s6 = fd_limit s5"
    using parse_command_keeps_fds [OF B std5] by simp_all
  obtain x1 s7 where w1: "sys_waitpid k p1 s6 = Return x1 s7"
    and ch7: "children s7 = filter (\<lambda>c. fst c \<noteq> p1) (children s6)"
    and f7: "fds s7 = fds s6" "fd_limit s7 = fd_limit s6"
    using sys_waitpid_terminated [OF s(3), of s6 k] left by (auto simp: s5_def s6_def)
  have m7: "map_of (children s7) r = Some (Some w)"
    using right pid(2) by (simp add: ch7 map_of_filter_other s5_def s6_def)
  define s8 where "s8 = s7\<lparr>children := filter (\<lambda>c. fst c \<noteq> r) (children s7),
                 log := log s7 @ [Ev_wait r (Some (r, w))]\<rparr>"
  have w2: "sys_waitpid k r s7 = Return (r, Some w) s8"
    unfolding s8_def by (rule sys_waitpid_found [OF pid(1) m7])
  have f8: "fds s8 = fds s5" "fd_limit s8 = fd_limit s5"
    using f7 k6 by (simp_all add: s8_def)
  have cp: "fds s8 c0 \<noteq> None" "fds s8 c1 \<noteq> None" "fds s8 c2 \<noteq> None"
    "c0 \<notin> {0, 1, 2}" "c1 \<notin> {0, 1, 2}" "c2 \<notin> {0, 1, 2}"
    using f8(1) s(1) v(1) v(2,3,4) v(5,6,7) std'
    by (auto simp: STDIN_FILENO_def STDOUT_FILENO_def STDERR_FILENO_def)
  have lim: "2 < fd_limit s8"
    using f8(2) s(2) v(8) cp(4) ok(1) by auto
  obtain st' where rs: "restore_all c0 c1 c2 s8 = Return () st'"
    using restore_all_succeeds [OF ok cp(1,2,3) v(5,6,7) cp(4,5,6) lim] by blast
  have pf: "pipe_finish k p1 r c0 c1 c2 s6 = Return (WEXITSTATUS w) st'"
    by (simp add: pipe_finish_def w1 w2 rs bind_def split: prod.splits)
  have node: "parse_command k (Op OP_PIPE (Some a) (Some b)) pos st = Return (WEXITSTATUS w) st'"
    by (simp only: parse_command_pipe) (simp add: ps B pf sv bind_def)
  have fin: "fds st' = fds st"
    using saved_then_restored [OF sv std _ rs] f8(1) s(1) by auto
  have ch: "children st' = filter (\<lambda>c. fst c \<noteq> r) (filter (\<lambda>c. fst c \<noteq> p1) (children s6))"
    using restore_all_result(6) [OF rs] by (simp add: s8_def ch7)
  have in5: "fds s5 STDIN_FILENO = Some (Pipe_read (serial st))"
    using s(1) by simp
  show ?thesis
    using node fin ch in5 by (auto simp: s5_def)
qed

text \<open>On \<open>true | grep\<close>, where \<open>grep\<close> exits with 2.\<close>

lemma pipe_returns_right_status_example:
  "fds (final (pipe_setup demo_kernel (Some (plain ''true'' [])) demo_state)) STDIN_FILENO
     = Some (Pipe_read 0)
   \<and> returned (parse_command demo_kernel
        (Op OP_PIPE (Some (plain ''true'' [])) (Some (plain ''grep'' []))) Root demo_state) = Some 2
   \<and> fds (final (parse_command demo_kernel
        (Op OP_PIPE (Some (plain ''true'' [])) (Some (plain ''grep'' []))) Root demo_state)) STDIN_FILENO
     = Some (Inherited 0)"
proof -
  let ?k = demo_kernel and ?st = demo_state and ?a = "plain ''true'' []" and ?b = "plain ''grep'' []"
  have std: "std_open ?st" by code_simp
  have room: "3 \<le> length (free_fds ?st)" by code_simp
  have su: "returned (pipe_setup ?k (Some ?a) ?st) = Some 101" by code_simp
  have rt: "returned (parse_command ?k ?b (Cmd2_of OP_PIPE) (final (pipe_setup ?k (Some ?a) ?st)))
              = Some 102" by code_simp
  have pid: "(0::int) < 102" "(102::int) \<noteq> 101" by simp_all
  have right: "map_of (children (final (parse_command ?k ?b (Cmd2_of OP_PIPE)
                  (final (pipe_setup ?k (Some ?a) ?st))))) 102 = Some (Some 512)" by code_simp
  have left: "(101, None) \<notin> set (children (final (parse_command ?k ?b (Cmd2_of OP_PIPE)
                  (final (pipe_setup ?k (Some ?a) ?st)))))" by code_simp
  have e: "WEXITSTATUS 512 = 2" "serial ?st = 0" "fds ?st STDIN_FILENO = Some (Inherited 0)"
    by code_simp+
  show ?thesis
    using pipe_returns_right_status [OF std room su rt pid right left, of Root] e by simp
qed

text \<open>
  Claim C5 at \<open>true | pwd\<close>. The built-in on the right returns the status 0, not a
  process id. The node waits for the left child and then calls \<open>waitpid(0, ...)\<close>, which
  finds no child and writes no status; the node returns \<open>WEXITSTATUS\<close> of the variable
  \<open>second_wstatus\<close>, which was never written. The value is whatever that variable
  holds, which the model leaves open: not the status 0 of the right side.
\<close>

theorem pipe_with_builtin_on_the_right:
  "returned (parse_command demo_kernel (plain ''pwd'' []) (Cmd2_of OP_PIPE) demo_state_in_pipe)
     = Some EXIT_SUCCESS
   \<and> indeterminate (parse_command demo_kernel
        (Op OP_PIPE (Some (plain ''true'' [])) (Some (plain ''pwd'' []))) Root demo_state)
   \<and> log (final (parse_command demo_kernel
        (Op OP_PIPE (Some (plain ''true'' [])) (Some (plain ''pwd'' []))) Root demo_state)) =
      [Ev_fork 101 [Ev_fork 101 [Ev_exec [''true''] None] (Some (Exited 0)),
                    Ev_wait (- 1) (Some (101, 0))] (Some (Exited 0)),
       Ev_write (Inherited 1) (''/home'' @ newline),
       Ev_wait 101 (Some (101, 0)),
       Ev_wait 0 None]"
  by code_simp

section \<open>The second \<open>open\<close> of the redirection helper\<close>

lemma sys_open_fails:
  assumes "lowest_free st \<noteq> None" and "k_open k (log st) p fl = Some e"
  shows "sys_open k (Some p) fl m st =
           (- 1, st\<lparr>errno := Some e, log := log st @ [Ev_open p fl m (Some e)]\<rparr>)"
  using assms by (auto simp: sys_open_def split: option.splits)

lemma sys_open_log:
  "\<exists>res. log (snd (sys_open k (Some p) fl m st)) = log st @ [Ev_open p fl m res]"
  by (auto simp: sys_open_def split: option.splits)

lemma redirect_tail_log:
  "log (final (let (rc, st4) = sys_dup2 new_fd old_fd st3 in
               if rc < 0 then Die ''dup2'' st4
               else (let (rc, st5) = sys_close new_fd st4 in
                     if rc < 0 then Die ''close'' st5 else Return () st5))) = log st3"
  by (simp add: sys_dup2_def sys_close_def)

text \<open>In general: whatever the error of the first \<open>open\<close> and whatever the intent, the
  helper opens the path a second time, with \<open>O_CREAT\<close>.\<close>

lemma redirect_second_open:
  assumes fl: "flag = O_WRONLY \<or> flag = O_APPEND \<or> flag = O_RDONLY"
    and free: "lowest_free st \<noteq> None"
    and err: "k_open k (log st) p
           (if flag = O_WRONLY then O_TRUNC OR O_WRONLY
            else if flag = O_APPEND then O_APPEND OR O_WRONLY else flag) = Some e"
  shows "\<exists>res. log (final (redirect k fd (Some p) flag st)) =
           log st @
           [Ev_open p (if flag = O_WRONLY then O_TRUNC OR O_WRONLY
                       else if flag = O_APPEND then O_APPEND OR O_WRONLY else flag) None (Some e),
            Ev_open p (O_CREAT OR O_TRUNC OR O_WRONLY) (Some 420) res]"
proof -
  let ?fl1 = "if flag = O_WRONLY then O_TRUNC OR O_WRONLY
              else if flag = O_APPEND then O_APPEND OR O_WRONLY else flag"
  define st1 where "st1 = st\<lparr>errno := Some e, log := log st @ [Ev_open p ?fl1 None (Some e)]\<rparr>"
  have first: "sys_open k (Some p) ?fl1 None st = (- 1, st1)"
    unfolding st1_def by (rule sys_open_fails [OF free err])
  obtain n2 st2 where second: "sys_open k (Some p) (O_CREAT OR O_TRUNC OR O_WRONLY) (Some 420) st1 = (n2, st2)"
    by (metis prod.exhaust)
  obtain res where lg2: "log st2 = log st1 @ [Ev_open p (O_CREAT OR O_TRUNC OR O_WRONLY) (Some 420) res]"
    using sys_open_log [of k p "O_CREAT OR O_TRUNC OR O_WRONLY" "Some 420" st1] second by auto
  have red: "redirect k fd (Some p) flag st =
          bind (if n2 < 0 then Die ''open'' st2 else Return n2 st2)
            (\<lambda>new_fd st3.
                 let (rc, st4) = sys_dup2 new_fd fd st3 in
                 if rc < 0 then Die ''dup2'' st4
                 else (let (rc, st5) = sys_close new_fd st4 in
                       if rc < 0 then Die ''close'' st5 else Return () st5))"
  proof -
    have "(if flag = O_WRONLY then sys_open k (Some p) (O_TRUNC OR O_WRONLY) None st
           else if flag = O_APPEND then sys_open k (Some p) (O_APPEND OR O_WRONLY) None st
           else sys_open k (Some p) flag None st) = (- 1, st1)"
      using first by (auto split: if_splits)
    then show ?thesis
      using fl by (simp add: redirect_def second)
  qed
  have "log (final (redirect k fd (Some p) flag st)) = log st2"
    unfolding red using redirect_tail_log [of n2 fd st2]
    by (cases "n2 < 0") (simp_all add: bind_def)
  then show ?thesis
    using lg2 by (auto simp: st1_def)
qed

end
